theory Spec2Isabelle
  imports Complex_Main
begin

section \<open>The reaction-diffusion engine of simulator.ts\<close>

text \<open>
  The engine of \<^verbatim>\<open>src/simulator.ts\<close> keeps two floating-point textures, a feed
  mask texture, and a source canvas; three shader programs work on them. The shaders are
  embedded as functions from the fragment's coordinate \<open>v_uv\<close> to the colour it writes,
  the textures as arrays of texels indexed by cell, and the closure variables of
  \<open>makeReactionDiffusionDiagram\<close> as a record that every operation takes and returns.
  Floating-point numbers are idealised as real numbers throughout: rounding is outside
  this model.

  What the source leaves to the platform is modelled as the platform defines it:
  \<open>texture2D\<close> as in OpenGL ES 2.0, the zero fill of a texture created without data, the
  scaling of canvas bytes to \<open>[0, 1]\<close> on upload, regl's check that a sampler uniform is
  given a texture, and regl's checks of a texture it is asked to create. Only the largest
  extent the device allows is left open: it is a parameter of the constructor.
\<close>

subsection \<open>GLSL vectors\<close>

type_synonym vec2 = "real \<times> real"

datatype vec4 = Vec4 (vx: real) (vy: real) (vz: real) (vw: real)

definition v2add :: "vec2 \<Rightarrow> vec2 \<Rightarrow> vec2" where
  "v2add a b = (fst a + fst b, snd a + snd b)"

definition v2sub :: "vec2 \<Rightarrow> vec2 \<Rightarrow> vec2" where
  "v2sub a b = (fst a - fst b, snd a - snd b)"

definition v2scale :: "real \<Rightarrow> vec2 \<Rightarrow> vec2" where
  "v2scale k a = (k * fst a, k * snd a)"

definition v4add :: "vec4 \<Rightarrow> vec4 \<Rightarrow> vec4" where
  "v4add a b = Vec4 (vx a + vx b) (vy a + vy b) (vz a + vz b) (vw a + vw b)"

definition v4scale :: "real \<Rightarrow> vec4 \<Rightarrow> vec4" where
  "v4scale k a = Vec4 (k * vx a) (k * vy a) (k * vz a) (k * vw a)"

text \<open>The swizzle \<open>.xy\<close>.\<close>

definition xy :: "vec4 \<Rightarrow> vec2" where
  "xy a = (vx a, vy a)"

text \<open>GLSL's \<open>mix(x, y, a) = x * (1 - a) + y * a\<close>, on four components.\<close>

definition mix :: "vec4 \<Rightarrow> vec4 \<Rightarrow> real \<Rightarrow> vec4" where
  "mix x y a = v4add (v4scale (1 - a) x) (v4scale a y)"

subsection \<open>Textures and the sampler\<close>

text \<open>
  A texture is square (\<open>radius\<close> texels each way), carries the sampler state it was
  created with, and holds one \<open>vec4\<close> per cell; cell \<open>(i, j)\<close> is column \<open>i\<close> of row
  \<open>j\<close>. The source sets \<open>min\<close> and \<open>mag\<close> together, so one field stands for both.
\<close>

datatype tex_filter = Nearest | Linear

datatype tex_wrap = Clamp | Repeat

record texture =
  radius :: int
  min_mag :: tex_filter
  wrap :: tex_wrap
  texels :: "int \<times> int \<Rightarrow> vec4"

definition in_grid :: "int \<Rightarrow> int \<times> int \<Rightarrow> bool" where
  "in_grid n p = (0 \<le> fst p \<and> fst p < n \<and> 0 \<le> snd p \<and> snd p < n)"

definition wrap_index :: "tex_wrap \<Rightarrow> int \<Rightarrow> int \<Rightarrow> int" where
  "wrap_index w n i = (case w of Repeat \<Rightarrow> i mod n | Clamp \<Rightarrow> max 0 (min (n - 1) i))"

text \<open>
  \<open>texture2D\<close> as OpenGL ES 2.0 defines it for the two filters: the nearest texel, or the
  bilinear blend of the four texels around the sample point, each index taken through the
  texture's wrap mode.
\<close>

definition texture2D :: "texture \<Rightarrow> vec2 \<Rightarrow> vec4" where
  "texture2D t uv =
    (let n = radius t;
         u = fst uv * real_of_int n;
         v = snd uv * real_of_int n
     in case min_mag t of
          Nearest \<Rightarrow> texels t (wrap_index (wrap t) n \<lfloor>u\<rfloor>, wrap_index (wrap t) n \<lfloor>v\<rfloor>)
        | Linear \<Rightarrow>
           (let i0 = wrap_index (wrap t) n \<lfloor>u - 1/2\<rfloor>;
                i1 = wrap_index (wrap t) n (\<lfloor>u - 1/2\<rfloor> + 1);
                j0 = wrap_index (wrap t) n \<lfloor>v - 1/2\<rfloor>;
                j1 = wrap_index (wrap t) n (\<lfloor>v - 1/2\<rfloor> + 1);
                a = frac (u - 1/2);
                b = frac (v - 1/2)
            in v4add
                 (v4add (v4scale ((1 - a) * (1 - b)) (texels t (i0, j0)))
                        (v4scale (a * (1 - b)) (texels t (i1, j0))))
                 (v4add (v4scale ((1 - a) * b) (texels t (i0, j1)))
                        (v4scale (a * b) (texels t (i1, j1))))))"

text \<open>
  The three kinds of texture the source creates. The two simulation buffers:
  \<^verbatim>\<open>regl.texture({radius: params.size, type: "float", min: "linear", mag: "linear", wrap: "repeat"})\<close>,
  zero-filled. The feed mask: one float channel from a \<open>Float32Array\<close> in row-major
  order, with regl's default sampler state (nearest, clamp); a one-channel texture samples
  as \<open>(L, L, L, 1)\<close>. The seed: the pixels of a canvas, bytes scaled to \<open>[0, 1]\<close>.
\<close>

definition buffer_texture :: "int \<Rightarrow> texture" where
  "buffer_texture n =
     \<lparr>radius = n, min_mag = Linear, wrap = Repeat, texels = (\<lambda>p. Vec4 0 0 0 0)\<rparr>"

definition mask_texture :: "int \<Rightarrow> real list \<Rightarrow> texture" where
  "mask_texture n data =
     \<lparr>radius = n, min_mag = Nearest, wrap = Clamp,
      texels = (\<lambda>p. let l = data ! nat (snd p * n + fst p) in Vec4 l l l 1)\<rparr>"

datatype rgba = RGBA (red: int) (green: int) (blue: int) (alpha: int)

record canvas =
  width :: int
  pixels :: "int \<times> int \<Rightarrow> rgba"

definition texel_of_rgba :: "rgba \<Rightarrow> vec4" where
  "texel_of_rgba c =
     Vec4 (real_of_int (red c) / 255) (real_of_int (green c) / 255)
          (real_of_int (blue c) / 255) (real_of_int (alpha c) / 255)"

definition canvas_texture :: "canvas \<Rightarrow> texture" where
  "canvas_texture c =
     \<lparr>radius = width c, min_mag = Nearest, wrap = Clamp,
      texels = (\<lambda>p. texel_of_rgba (pixels c p))\<rparr>"

subsection \<open>Drawing into a framebuffer\<close>

text \<open>
  Every shader program draws one triangle that covers the whole target, with
  \<open>gl_Position = 2 * v_uv - 1\<close>: the fragment of cell \<open>(i, j)\<close> of an \<open>n \<times> n\<close> target
  runs with \<open>v_uv = ((i + 1/2) / n, (j + 1/2) / n)\<close>, and its colour replaces the cell
  (blending is off).
\<close>

definition fragment_uv :: "int \<Rightarrow> int \<times> int \<Rightarrow> vec2" where
  "fragment_uv n p =
     ((real_of_int (fst p) + 1/2) / real_of_int n, (real_of_int (snd p) + 1/2) / real_of_int n)"

definition render :: "texture \<Rightarrow> (vec2 \<Rightarrow> vec4) \<Rightarrow> texture" where
  "render target frag =
     target\<lparr>texels :=
       (\<lambda>p. if in_grid (radius target) p then frag (fragment_uv (radius target) p)
            else texels target p)\<rparr>"

subsection \<open>The shader programs\<close>

datatype error =
    InvalidUniform string
  | UndefinedBuffer int
  | RangeError
  | InvalidTextureShape int
  | IncompatibleWrapMode int
  | InvalidTextureData nat

text \<open>\<open>paint_from_bitmap\<close>: blend the seed over the old texel by the seed's alpha.\<close>

definition paint_from_bitmap :: "texture \<Rightarrow> texture \<Rightarrow> vec2 \<Rightarrow> vec4" where
  "paint_from_bitmap u_old u_new v_uv =
     (let old = texture2D u_old v_uv;
          new_texel = texture2D u_new v_uv
      in mix old new_texel (vw new_texel))"

text \<open>
  The per-iteration parameters the caller's \<open>uniforms(tick)\<close> returns (the five fields
  the page's function returns), and the properties the stencil program is called with:
  \<open>{u_texture, resolution, dt: 1.0, ...u, feed_mask}\<close>, the spread \<open>...u\<close> being the
  record extension. A \<open>sampler2D\<close> uniform is given either a texture or, when no mask
  texture exists, the plain object \<^verbatim>\<open>{ min: 0, max: 0 }\<close>.
\<close>

record StepParams =
  diffusion_rate :: real
  diffusion_step :: real
  feed :: real
  kill :: real
  u_reset :: bool

datatype sampler_value = TextureValue texture | ObjectValue

record shader_props = StepParams +
  u_texture :: texture
  resolution :: real
  dt :: real
  feed_mask :: sampler_value

definition weight_cardinal :: real where
  "weight_cardinal = 0.2"

definition weight_diagonal :: real where
  "weight_diagonal = 0.05"

definition diffusion :: "texture \<Rightarrow> vec2 \<Rightarrow> real \<Rightarrow> vec2" where
  "diffusion tex pos step =
     (let dx = (step, 0);
          dy = (0, step);
          w = xy (texture2D tex (v2sub pos dx));
          e = xy (texture2D tex (v2add pos dx));
          s = xy (texture2D tex (v2sub pos dy));
          n = xy (texture2D tex (v2add pos dy));
          sw = xy (texture2D tex (v2sub (v2sub pos dx) dy));
          se = xy (texture2D tex (v2sub (v2add pos dx) dy));
          nw = xy (texture2D tex (v2add (v2sub pos dx) dy));
          ne = xy (texture2D tex (v2add (v2add pos dx) dy))
      in v2add (v2scale weight_cardinal (v2add (v2add (v2add w e) s) n))
               (v2scale weight_diagonal (v2add (v2add (v2add sw se) nw) ne)))"

text \<open>The fragment shader \<open>main\<close> of \<open>karlsims_reactiondiffusion\<close>, with the mask texture bound.\<close>

definition karlsims_main :: "shader_props \<Rightarrow> texture \<Rightarrow> vec2 \<Rightarrow> vec4" where
  "karlsims_main props mask_tex v_uv =
     (let center = xy (texture2D (u_texture props) v_uv);
          blur = v2sub (diffusion (u_texture props) v_uv
                          (diffusion_step props / resolution props)) center;
          A = fst center;
          B = snd center;
          reaction = A * B * B;
          local_feed = feed props * vx (texture2D mask_tex v_uv);
          diff = v2scale (dt props)
                   (diffusion_rate props * fst blur - reaction + local_feed * (1.0 - A),
                    diffusion_rate props * 0.5 * snd blur + reaction
                      - (kill props + local_feed) * B);
          out = v2add center diff
      in Vec4 (fst out) (snd out) 0 0)"

text \<open>
  The draw command. regl binds a \<open>sampler2D\<close> uniform by the texture behind the value it
  is given and rejects the draw call when the value is not a texture, so the command can
  fail; otherwise it runs the fragment shader on every cell of the target.
\<close>

definition karlsims_reactiondiffusion :: "shader_props \<Rightarrow> texture \<Rightarrow> error + texture" where
  "karlsims_reactiondiffusion props target =
     (case feed_mask props of
        ObjectValue \<Rightarrow> Inl (InvalidUniform ''feed_mask'')
      | TextureValue mask_tex \<Rightarrow> Inr (render target (karlsims_main props mask_tex)))"

subsection \<open>The session\<close>

text \<open>
  \<open>DiagramParam\<close> is the configuration object; \<open>initial_bitmap\<close> paints on the canvas it
  is given (it returns the pixels it leaves there) and may read the host's data (\<open>'e\<close>),
  which the page changes when an image is uploaded. The closure variables of
  \<open>makeReactionDiffusionDiagram\<close> form the record \<open>diagram\<close>; \<open>gpu_log\<close> lists the draw
  calls issued so far with the indices of the buffers they were given: \<open>Paint target old\<close>,
  \<open>Step read written\<close>, \<open>Draw u_old u_new\<close>.
\<close>

record 'e DiagramParam =
  size_param :: int
  iterations_per_tick :: int
  initial_bitmap :: "'e \<Rightarrow> canvas \<Rightarrow> int \<times> int \<Rightarrow> rgba"
  colorize_glsl :: string
  feed_mask_param :: "real list option"

datatype gpu_command = Paint int int | Step int int | Draw int int

record diagram =
  feedMaskTexture :: "texture option"
  buffer_textures :: "texture list"
  source_bitmap :: canvas
  currentOutputIn :: int
  gpu_log :: "gpu_command list"

text \<open>Indexing a JavaScript array: \<open>undefined\<close> outside its range.\<close>

definition array_get :: "'a list \<Rightarrow> int \<Rightarrow> 'a option" where
  "array_get xs i = (if 0 \<le> i \<and> i < int (length xs) then Some (xs ! nat i) else None)"

text \<open>
  \<open>reset\<close> paints the seed into the framebuffer of \<open>currentOutputIn\<close>, reading the other
  buffer as \<open>u_old\<close>; it does not change \<open>currentOutputIn\<close>.
\<close>

definition reset :: "diagram \<Rightarrow> error option \<times> diagram" where
  "reset st =
     (let source_texture = canvas_texture (source_bitmap st) in
      case array_get (buffer_textures st) (currentOutputIn st) of
        None \<Rightarrow> (Some (UndefinedBuffer (currentOutputIn st)), st)
      | Some target \<Rightarrow>
         (case array_get (buffer_textures st) (1 - currentOutputIn st) of
            None \<Rightarrow> (Some (UndefinedBuffer (1 - currentOutputIn st)), st)
          | Some u_old \<Rightarrow>
             (None,
              st\<lparr>buffer_textures :=
                   (buffer_textures st)
                     [nat (currentOutputIn st) :=
                        render target (paint_from_bitmap u_old source_texture)],
                 gpu_log := gpu_log st @ [Paint (currentOutputIn st) (1 - currentOutputIn st)]\<rparr>)))"

text \<open>
  \<open>run\<close>: draw into the framebuffer of \<open>1 - currentOutputIn\<close> with the texture of
  \<open>currentOutputIn\<close> as input, then swap. An exception in the draw call leaves
  \<open>currentOutputIn\<close> as it was.
\<close>

definition run :: "(texture \<Rightarrow> texture \<Rightarrow> error + texture) \<Rightarrow> diagram \<Rightarrow> error option \<times> diagram" where
  "run fn st =
     (let nextOutputIn = 1 - currentOutputIn st in
      case array_get (buffer_textures st) nextOutputIn of
        None \<Rightarrow> (Some (UndefinedBuffer nextOutputIn), st)
      | Some target \<Rightarrow>
         (case array_get (buffer_textures st) (currentOutputIn st) of
            None \<Rightarrow> (Some (UndefinedBuffer (currentOutputIn st)), st)
          | Some src \<Rightarrow>
             (case fn src target of
                Inl e \<Rightarrow> (Some e, st)
              | Inr drawn \<Rightarrow>
                 (None,
                  st\<lparr>buffer_textures := (buffer_textures st)[nat nextOutputIn := drawn],
                     currentOutputIn := nextOutputIn,
                     gpu_log := gpu_log st @ [Step (currentOutputIn st) nextOutputIn]\<rparr>))))"

text \<open>The properties of one stencil step, as the frame callback builds them.\<close>

definition step_props :: "'e DiagramParam \<Rightarrow> diagram \<Rightarrow> StepParams \<Rightarrow> texture \<Rightarrow> shader_props" where
  "step_props params st u tex =
     \<lparr>diffusion_rate = diffusion_rate u, diffusion_step = diffusion_step u,
      feed = feed u, kill = kill u, u_reset = u_reset u,
      u_texture = tex,
      resolution = real_of_int (size_param params),
      dt = 1.0,
      feed_mask = (case feedMaskTexture st of Some t \<Rightarrow> TextureValue t | None \<Rightarrow> ObjectValue)\<rparr>"

definition draw :: "diagram \<Rightarrow> error option \<times> diagram" where
  "draw st =
     (case array_get (buffer_textures st) (currentOutputIn st) of
        None \<Rightarrow> (Some (UndefinedBuffer (currentOutputIn st)), st)
      | Some u_old \<Rightarrow>
         (case array_get (buffer_textures st) (1 - currentOutputIn st) of
            None \<Rightarrow> (Some (UndefinedBuffer (1 - currentOutputIn st)), st)
          | Some u_new \<Rightarrow>
             (None, st\<lparr>gpu_log := gpu_log st @ [Draw (currentOutputIn st) (1 - currentOutputIn st)]\<rparr>)))"

text \<open>The loop of the frame callback, from \<open>iterate\<close> up to \<open>iterations_per_tick\<close>.\<close>

function iterations ::
  "'e DiagramParam \<Rightarrow> (nat \<Rightarrow> StepParams) \<Rightarrow> nat \<Rightarrow> int \<Rightarrow> diagram \<Rightarrow> error option \<times> diagram" where
  "iterations params uniforms tick iterate st =
     (if iterate < iterations_per_tick params then
        (let u = uniforms tick in
         case (if u_reset u then reset st else (None, st)) of
           (Some e, st1) \<Rightarrow> (Some e, st1)
         | (None, st1) \<Rightarrow>
            (case run (\<lambda>tex. karlsims_reactiondiffusion (step_props params st1 u tex)) st1 of
               (Some e, st2) \<Rightarrow> (Some e, st2)
             | (None, st2) \<Rightarrow> iterations params uniforms tick (iterate + 1) st2))
      else (None, st))"
  by pat_completeness auto
termination
  by (relation "measure (\<lambda>(params, uniforms, tick, iterate, st). nat (iterations_per_tick params - iterate))") auto

declare iterations.simps [simp del]

record env =
  dataset_visible :: "string option"
  visibilityState :: string

definition frame ::
  "'e DiagramParam \<Rightarrow> (nat \<Rightarrow> StepParams) \<Rightarrow> env \<Rightarrow> nat \<Rightarrow> diagram \<Rightarrow> error option \<times> diagram" where
  "frame params uniforms ev tick st =
     (if dataset_visible ev = Some ''hidden'' \<or> visibilityState ev = ''hidden'' then (None, st)
      else case iterations params uniforms tick 0 st of
             (Some e, st') \<Rightarrow> (Some e, st')
           | (None, st') \<Rightarrow> draw st')"

subsection \<open>The exposed operations\<close>

text \<open>
  Typed arrays: \<open>new Float32Array(n)\<close> is \<open>n\<close> zeros and throws a \<open>RangeError\<close> for a
  negative length; \<open>subarray(begin, end)\<close> clamps both indices into the array, a negative
  one counting from the end; \<open>target.set(src)\<close> overwrites the front of \<open>target\<close> and
  throws a \<open>RangeError\<close> when \<open>src\<close> is longer.
\<close>

definition Float32Array_new :: "int \<Rightarrow> error + real list" where
  "Float32Array_new n = (if n < 0 then Inl RangeError else Inr (replicate (nat n) 0))"

definition relative_index :: "nat \<Rightarrow> int \<Rightarrow> nat" where
  "relative_index len i = (if i < 0 then nat (max (int len + i) 0) else min (nat i) len)"

definition subarray :: "real list \<Rightarrow> int \<Rightarrow> int \<Rightarrow> real list" where
  "subarray xs lo hi =
     (let b = relative_index (length xs) lo;
          e = relative_index (length xs) hi
      in take (e - b) (drop b xs))"

definition typed_set :: "real list \<Rightarrow> real list \<Rightarrow> error + real list" where
  "typed_set target src =
     (if length src > length target then Inl RangeError
      else Inr (src @ drop (length src) target))"

datatype diagnostic = Warn int nat

text \<open>
  The first \<open>if\<close> statement of \<open>updateFeedMask\<close>: what \<open>console.warn\<close> printed (the
  expected and the given length), and the value of \<open>newFeedMask\<close> after it, or the
  exception thrown.
\<close>

definition updateFeedMask_fixed :: "int \<Rightarrow> real list \<Rightarrow> diagnostic list \<times> (error + real list)" where
  "updateFeedMask_fixed expectedLength newFeedMask =
     (if int (length newFeedMask) \<noteq> expectedLength then
        ([Warn expectedLength (length newFeedMask)],
         (case Float32Array_new expectedLength of
            Inl e \<Rightarrow> Inl e
          | Inr fixed \<Rightarrow> typed_set fixed (subarray newFeedMask 0 expectedLength)))
      else ([], Inr newFeedMask))"

definition updateFeedMask ::
  "'e DiagramParam \<Rightarrow> real list \<Rightarrow> diagram \<Rightarrow> error option \<times> diagnostic list \<times> diagram" where
  "updateFeedMask params newFeedMask st =
     (let expectedLength = size_param params * size_param params in
      case updateFeedMask_fixed expectedLength newFeedMask of
        (console, Inl e) \<Rightarrow> (Some e, console, st)
      | (console, Inr newFeedMask') \<Rightarrow>
         (None, console,
          (case feedMaskTexture st of
             Some t \<Rightarrow> st\<lparr>feedMaskTexture := Some (mask_texture (size_param params) newFeedMask')\<rparr>
           | None \<Rightarrow> st)))"

text \<open>
  Canvas rectangles: \<open>clearRect\<close> and \<open>fillRect\<close> with \<open>fillStyle = "black"\<close>.
  \<open>paint_initial\<close> is the block the constructor and \<open>reloadInitialBitmap\<close> share: fill
  the canvas black, set the transform, call \<open>params.initial_bitmap\<close>.
\<close>

definition clearRect :: "int \<Rightarrow> canvas \<Rightarrow> canvas" where
  "clearRect n c = c\<lparr>pixels := (\<lambda>p. if in_grid n p then RGBA 0 0 0 0 else pixels c p)\<rparr>"

definition fillRect_black :: "int \<Rightarrow> canvas \<Rightarrow> canvas" where
  "fillRect_black n c = c\<lparr>pixels := (\<lambda>p. if in_grid n p then RGBA 0 0 0 255 else pixels c p)\<rparr>"

definition paint_initial :: "'e DiagramParam \<Rightarrow> 'e \<Rightarrow> canvas \<Rightarrow> canvas" where
  "paint_initial params host c =
     (let black = fillRect_black (size_param params) c
      in black\<lparr>pixels := initial_bitmap params host black\<rparr>)"

definition reloadInitialBitmap :: "'e DiagramParam \<Rightarrow> 'e \<Rightarrow> diagram \<Rightarrow> diagram" where
  "reloadInitialBitmap params host st =
     st\<lparr>source_bitmap :=
          paint_initial params host (clearRect (size_param params) (source_bitmap st))\<rparr>"

text \<open>
  regl checks every texture it is asked to create and throws when the check fails: the
  extent must be positive and within the device's limit (\<open>accepts\<close>), a texture whose wrap
  mode is not clamping must have an extent that is a power of two (regl's \<open>isPow2\<close>), and
  a typed array given as data must hold exactly one value per texel and channel.
\<close>

definition isPow2 :: "int \<Rightarrow> bool" where
  "isPow2 v = (and v (v - 1) = 0 \<and> v \<noteq> 0)"

definition regl_texture_check :: "(int \<Rightarrow> bool) \<Rightarrow> texture \<Rightarrow> nat option \<Rightarrow> error option" where
  "regl_texture_check accepts t data_length =
     (if radius t \<le> 0 \<or> \<not> accepts (radius t) then Some (InvalidTextureShape (radius t))
      else if wrap t \<noteq> Clamp \<and> \<not> isPow2 (radius t) then Some (IncompatibleWrapMode (radius t))
      else case data_length of
             None \<Rightarrow> None
           | Some l \<Rightarrow>
              if int l \<noteq> radius t * radius t then Some (InvalidTextureData l) else None)"

text \<open>
  \<open>makeReactionDiffusionDiagram\<close> creates the mask texture when \<open>params.feed_mask\<close> is
  given, then the two buffer textures, paints the source canvas and calls \<open>reset\<close>. It
  never looks at \<open>params.size\<close> itself: what stops it is regl throwing for a texture, and
  the exception leaves the function at once, so there is no session. The result is the
  state of the closure that the three returned operations share.
\<close>

definition makeReactionDiffusionDiagram ::
  "(int \<Rightarrow> bool) \<Rightarrow> 'e DiagramParam \<Rightarrow> 'e \<Rightarrow> error + diagram" where
  "makeReactionDiffusionDiagram accepts params host =
     (let n = size_param params in
      case (case feed_mask_param params of
              None \<Rightarrow> None
            | Some data \<Rightarrow> regl_texture_check accepts (mask_texture n data) (Some (length data))) of
        Some e \<Rightarrow> Inl e
      | None \<Rightarrow>
         (case regl_texture_check accepts (buffer_texture n) None of
            Some e \<Rightarrow> Inl e
          | None \<Rightarrow>
             (let st = \<lparr>feedMaskTexture = map_option (mask_texture n) (feed_mask_param params),
                        buffer_textures = [buffer_texture n, buffer_texture n],
                        source_bitmap =
                          paint_initial params host \<lparr>width = n, pixels = (\<lambda>p. RGBA 0 0 0 0)\<rparr>,
                        currentOutputIn = 0,
                        gpu_log = []\<rparr>
              in case reset st of
                   (Some e, st') \<Rightarrow> Inl e
                 | (None, st') \<Rightarrow> Inr st')))"

text \<open>The configurations for which regl creates every texture of the constructor.\<close>

definition constructible :: "(int \<Rightarrow> bool) \<Rightarrow> 'e DiagramParam \<Rightarrow> bool" where
  "constructible accepts params =
     (regl_texture_check accepts (buffer_texture (size_param params)) None = None
      \<and> (case feed_mask_param params of
            None \<Rightarrow> True
          | Some data \<Rightarrow>
             regl_texture_check accepts (mask_texture (size_param params) data)
               (Some (length data)) = None))"

subsection \<open>The page's seed painter\<close>

text \<open>
  \<open>initial_bitmap\<close> of the page script: a grey, opaque pixel per concentration, written
  with \<open>putImageData\<close> at the canvas origin. Pixels of the image beyond the concentration
  array stay transparent black.
\<close>

definition SIMULATION_SIZE :: int where
  "SIMULATION_SIZE = 256"

definition IMAGE_SIZE :: int where
  "IMAGE_SIZE = SIMULATION_SIZE"

definition brightness :: "real \<Rightarrow> int" where
  "brightness v = \<lfloor>255 * max 0 (min 1 v)\<rfloor>"

definition main_initial_bitmap :: "real list \<Rightarrow> canvas \<Rightarrow> int \<times> int \<Rightarrow> rgba" where
  "main_initial_bitmap initialConcentrations c =
     (\<lambda>p. if in_grid IMAGE_SIZE p then
             (let i = nat (snd p * IMAGE_SIZE + fst p) in
              if i < length initialConcentrations then
                (let b = brightness (initialConcentrations ! i) in RGBA b b b 255)
              else RGBA 0 0 0 0)
           else pixels c p)"

subsection \<open>Reachable states\<close>

inductive reachable :: "(int \<Rightarrow> bool) \<Rightarrow> 'e DiagramParam \<Rightarrow> diagram \<Rightarrow> bool"
  for accepts :: "int \<Rightarrow> bool" and params :: "'e DiagramParam" where
  constructed:
    "makeReactionDiffusionDiagram accepts params host = Inr st \<Longrightarrow> reachable accepts params st"
| after_reset:
    "reachable accepts params st \<Longrightarrow> reset st = (r, st') \<Longrightarrow> reachable accepts params st'"
| after_frame:
    "reachable accepts params st \<Longrightarrow> frame params uniforms ev tick st = (r, st')
       \<Longrightarrow> reachable accepts params st'"
| after_updateFeedMask:
    "reachable accepts params st \<Longrightarrow> updateFeedMask params newFeedMask st = (r, console, st')
       \<Longrightarrow> reachable accepts params st'"
| after_reloadInitialBitmap:
    "reachable accepts params st \<Longrightarrow> reachable accepts params (reloadInitialBitmap params host st)"

text \<open>
  What every reachable state satisfies, for a grid of \<open>n \<times> n\<close> cells: two buffers with
  the sampler state they were created with, an index that names one of them, a source
  canvas of the grid's size, and a mask texture, if any, of the grid's size.
\<close>

definition valid_diagram :: "int \<Rightarrow> diagram \<Rightarrow> bool" where
  "valid_diagram n st =
     (length (buffer_textures st) = 2
      \<and> (currentOutputIn st = 0 \<or> currentOutputIn st = 1)
      \<and> (\<forall>t \<in> set (buffer_textures st). radius t = n \<and> min_mag t = Linear \<and> wrap t = Repeat)
      \<and> width (source_bitmap st) = n
      \<and> (case feedMaskTexture st of
            None \<Rightarrow> True
          | Some m \<Rightarrow> radius m = n \<and> min_mag m = Nearest \<and> wrap m = Clamp))"

text \<open>
  The roles a draw call may be given: the two buffer indices, one each. The invariant of
  the session adds that every draw call issued so far had such roles.
\<close>

definition roles_ok :: "gpu_command \<Rightarrow> bool" where
  "roles_ok c = (case c of
      Paint a b \<Rightarrow> (a = 0 \<and> b = 1) \<or> (a = 1 \<and> b = 0)
    | Step a b \<Rightarrow> (a = 0 \<and> b = 1) \<or> (a = 1 \<and> b = 0)
    | Draw a b \<Rightarrow> (a = 0 \<and> b = 1) \<or> (a = 1 \<and> b = 0))"

definition diagram_inv :: "int \<Rightarrow> diagram \<Rightarrow> bool" where
  "diagram_inv n st = (valid_diagram n st \<and> list_all roles_ok (gpu_log st))"

subsection \<open>The page's configuration\<close>

text \<open>The arguments the page script passes to \<open>makeReactionDiffusionDiagram\<close>.\<close>

definition main_params :: "real list \<Rightarrow> real list DiagramParam" where
  "main_params enhancedEdgeMap =
     \<lparr>size_param = SIMULATION_SIZE, iterations_per_tick = 20,
      initial_bitmap = main_initial_bitmap,
      colorize_glsl = ''vec3(step(texture2D(u_new, v_uv).x, 0.5))'',
      feed_mask_param = Some enhancedEdgeMap\<rparr>"

definition main_uniforms :: "real \<Rightarrow> real \<Rightarrow> nat \<Rightarrow> StepParams" where
  "main_uniforms slider_feed slider_kill tick =
     \<lparr>diffusion_rate = 0.7, diffusion_step = 1.0, feed = slider_feed, kill = slider_kill,
      u_reset = False\<rparr>"

text \<open>
  Sessions of the page on a device without a limit on the extent: with an all-white image
  and a mask of ones, the same without a feed mask, and with a mid-grey image.
\<close>

abbreviation page_session :: diagram where
  "page_session \<equiv>
     projr (makeReactionDiffusionDiagram (\<lambda>n. True) (main_params (replicate 65536 1)) (replicate 65536 1))"

abbreviation maskless_session :: diagram where
  "maskless_session \<equiv>
     projr (makeReactionDiffusionDiagram (\<lambda>n. True)
             ((main_params [])\<lparr>feed_mask_param := None\<rparr>) (replicate 65536 1))"

abbreviation grey_session :: diagram where
  "grey_session \<equiv>
     projr (makeReactionDiffusionDiagram (\<lambda>n. True) (main_params (replicate 65536 1))
             (replicate 65536 (1/2)))"

abbreviation visible :: env where
  "visible \<equiv> \<lparr>dataset_visible = None, visibilityState = ''visible''\<rparr>"

text \<open>
  The specification's scenario on a \<open>4 \<times> 4\<close> grid with a mask of ones: a seed that is
  black but for one opaque red pixel at the edge cell \<open>(0, 1)\<close>, and an all-black seed.
\<close>

abbreviation dot_params :: "unit DiagramParam" where
  "dot_params \<equiv>
     \<lparr>size_param = 4, iterations_per_tick = 1,
      initial_bitmap = (\<lambda>h c. (pixels c)((0, 1) := RGBA 255 0 0 255)),
      colorize_glsl = ''vec3(step(texture2D(u_new, v_uv).x, 0.5))'',
      feed_mask_param = Some (replicate 16 1)\<rparr>"

abbreviation blank_params :: "unit DiagramParam" where
  "blank_params \<equiv>
     \<lparr>size_param = 4, iterations_per_tick = 1,
      initial_bitmap = (\<lambda>h c. pixels c),
      colorize_glsl = ''vec3(step(texture2D(u_new, v_uv).x, 0.5))'',
      feed_mask_param = Some (replicate 16 1)\<rparr>"

abbreviation dot_session :: diagram where
  "dot_session \<equiv> projr (makeReactionDiffusionDiagram (\<lambda>n. True) dot_params ())"

abbreviation blank_session :: diagram where
  "blank_session \<equiv> projr (makeReactionDiffusionDiagram (\<lambda>n. True) blank_params ())"

abbreviation scenario_uniforms :: "real \<Rightarrow> StepParams" where
  "scenario_uniforms step \<equiv>
     \<lparr>diffusion_rate = 0.7, diffusion_step = step, feed = 0.03, kill = 0.06, u_reset = False\<rparr>"

subsection \<open>The stencil step as the specification writes it\<close>

text \<open>
  The update of one cell in the specification's words: \<open>blur = 0.2 * cardinal_sum +
  0.05 * diagonal_sum - center\<close> with the eight neighbours sampled from the read buffer
  \<open>rd\<close> at the offset \<open>diffusion_step / resolution\<close>, then the forward-Euler update
  of \<open>A\<close> and \<open>B\<close> with \<open>dt = 1.0\<close>; \<open>mask_p\<close> is the mask's value at the cell.
\<close>

definition spec_step ::
  "texture \<Rightarrow> real \<Rightarrow> StepParams \<Rightarrow> int \<Rightarrow> int \<times> int \<Rightarrow> real \<times> real" where
  "spec_step rd mask_p u n p =
     (let off = diffusion_step u / real_of_int n;
          sample = (\<lambda>a b. xy (texture2D rd (fst (fragment_uv n p) + a * off,
                                               snd (fragment_uv n p) + b * off)));
          N = sample 0 1; S = sample 0 (- 1); E = sample 1 0; W = sample (- 1) 0;
          NE = sample 1 1; NW = sample (- 1) 1; SE = sample 1 (- 1); SW = sample (- 1) (- 1);
          cardinal_sum = (fst N + fst S + fst E + fst W, snd N + snd S + snd E + snd W);
          diagonal_sum = (fst NE + fst NW + fst SE + fst SW, snd NE + snd NW + snd SE + snd SW);
          center = xy (texels rd p);
          blur = (0.2 * fst cardinal_sum + 0.05 * fst diagonal_sum - fst center,
                  0.2 * snd cardinal_sum + 0.05 * snd diagonal_sum - snd center);
          A = fst center;
          B = snd center;
          reaction = A * B * B;
          local_feed = feed u * mask_p;
          dt = 1.0
      in (A + dt * (diffusion_rate u * fst blur - reaction + local_feed * (1 - A)),
          B + dt * (0.5 * diffusion_rate u * snd blur + reaction - (kill u + local_feed) * B)))"

section \<open>Auxiliary facts\<close>

lemma Float32Array_new_square: "Float32Array_new (n * n) = Inr (replicate (nat (n * n)) 0)"
  by (simp add: Float32Array_new_def not_less)

lemma subarray_prefix: "0 \<le> k \<Longrightarrow> subarray xs 0 k = take (nat k) xs"
  by (auto simp: subarray_def relative_index_def Let_def min_def)

lemma typed_set_prefix:
  "typed_set (replicate k 0) (take k xs) = Inr (take k xs @ replicate (k - length xs) 0)"
  by (auto simp: typed_set_def min_def)

lemma length_padded: "length (take k xs @ replicate (k - length xs) (0::real)) = k"
  by (simp add: min_def)

lemma int_length_padded:
  "int (length (take (nat (n * n)) xs @ replicate (nat (n * n) - length xs) (0::real))) = n * n"
  unfolding length_padded by simp

lemma updateFeedMask_fixed_mismatch:
  assumes "int (length newFeedMask) \<noteq> n * n"
  shows "updateFeedMask_fixed (n * n) newFeedMask =
           ([Warn (n * n) (length newFeedMask)],
            Inr (take (nat (n * n)) newFeedMask @ replicate (nat (n * n) - length newFeedMask) 0))"
  using assms
  by (simp add: updateFeedMask_fixed_def Float32Array_new_square subarray_prefix typed_set_prefix)

lemma updateFeedMask_fixed_match:
  assumes "int (length newFeedMask) = n * n"
  shows "updateFeedMask_fixed (n * n) newFeedMask = ([], Inr newFeedMask)"
  using assms by (simp add: updateFeedMask_fixed_def)

lemma updateFeedMask_fixed_never_throws:
  "\<exists>fixed. snd (updateFeedMask_fixed (n * n) newFeedMask) = Inr fixed \<and> int (length fixed) = n * n"
proof (cases "int (length newFeedMask) = n * n")
  case True
  then show ?thesis by (simp add: updateFeedMask_fixed_match)
next
  case False
  then have "snd (updateFeedMask_fixed (n * n) newFeedMask) =
      Inr (take (nat (n * n)) newFeedMask @ replicate (nat (n * n) - length newFeedMask) 0)"
    by (simp add: updateFeedMask_fixed_mismatch)
  then show ?thesis using int_length_padded by blast
qed

lemma updateFeedMask_maskless:
  assumes "feedMaskTexture st = None"
  shows "updateFeedMask params newFeedMask st =
           (None, fst (updateFeedMask_fixed (size_param params * size_param params) newFeedMask), st)"
proof -
  obtain fixed where
    "snd (updateFeedMask_fixed (size_param params * size_param params) newFeedMask) = Inr fixed"
    using updateFeedMask_fixed_never_throws by blast
  then show ?thesis
    using assms by (cases "updateFeedMask_fixed (size_param params * size_param params) newFeedMask")
      (simp add: updateFeedMask_def Let_def)
qed

lemma render_sampler [simp]:
  "radius (render t f) = radius t" "min_mag (render t f) = min_mag t" "wrap (render t f) = wrap t"
  by (simp_all add: render_def)

lemma array_get_pair:
  "length xs = 2 \<Longrightarrow> c = 0 \<or> c = 1 \<Longrightarrow>
     array_get xs c = Some (xs ! nat c) \<and> array_get xs (1 - c) = Some (xs ! nat (1 - c))"
  by (auto simp: array_get_def)

lemma in_set_update: "t \<in> set (xs[i := x]) \<Longrightarrow> t = x \<or> t \<in> set xs"
  using set_update_subset_insert by fastforce

lemma reset_inv:
  assumes "diagram_inv n st" "reset st = (r, st')"
  shows "diagram_inv n st' \<and> r = None"
proof -
  from assms(1) have len: "length (buffer_textures st) = 2"
    and c: "currentOutputIn st = 0 \<or> currentOutputIn st = 1"
    by (simp_all add: diagram_inv_def valid_diagram_def)
  from len c have tin: "buffer_textures st ! nat (currentOutputIn st) \<in> set (buffer_textures st)"
    by (auto simp: nth_mem)
  from array_get_pair[OF len c] assms(2)
  have st': "st' = st\<lparr>buffer_textures :=
                   (buffer_textures st)
                     [nat (currentOutputIn st) :=
                        render (buffer_textures st ! nat (currentOutputIn st))
                          (paint_from_bitmap (buffer_textures st ! nat (1 - currentOutputIn st))
                             (canvas_texture (source_bitmap st)))],
                 gpu_log := gpu_log st @ [Paint (currentOutputIn st) (1 - currentOutputIn st)]\<rparr>"
    and r: "r = None"
    by (auto simp: reset_def Let_def)
  show ?thesis
    using assms(1) c tin unfolding st' r diagram_inv_def valid_diagram_def
    by (auto simp: roles_ok_def dest!: in_set_update)
qed

lemma run_inv:
  assumes "diagram_inv n st" "run (\<lambda>tex. karlsims_reactiondiffusion (props tex)) st = (r, st')"
  shows "diagram_inv n st'"
proof -
  from assms(1) have len: "length (buffer_textures st) = 2"
    and c: "currentOutputIn st = 0 \<or> currentOutputIn st = 1"
    by (simp_all add: diagram_inv_def valid_diagram_def)
  from len c have tin: "buffer_textures st ! nat (1 - currentOutputIn st) \<in> set (buffer_textures st)"
    by (auto simp: nth_mem)
  show ?thesis
  proof (cases "karlsims_reactiondiffusion (props (buffer_textures st ! nat (currentOutputIn st)))
                  (buffer_textures st ! nat (1 - currentOutputIn st))")
    case (Inl e)
    with array_get_pair[OF len c] assms(2) have "st' = st"
      by (auto simp: run_def Let_def)
    with assms(1) show ?thesis by simp
  next
    case (Inr drawn)
    then have d: "radius drawn = radius (buffer_textures st ! nat (1 - currentOutputIn st))"
        "min_mag drawn = min_mag (buffer_textures st ! nat (1 - currentOutputIn st))"
        "wrap drawn = wrap (buffer_textures st ! nat (1 - currentOutputIn st))"
      by (auto simp: karlsims_reactiondiffusion_def split: sampler_value.splits)
    from Inr array_get_pair[OF len c] assms(2)
    have st': "st' = st\<lparr>buffer_textures := (buffer_textures st)[nat (1 - currentOutputIn st) := drawn],
                     currentOutputIn := 1 - currentOutputIn st,
                     gpu_log := gpu_log st @ [Step (currentOutputIn st) (1 - currentOutputIn st)]\<rparr>"
      by (auto simp: run_def Let_def)
    show ?thesis
      using assms(1) c tin d unfolding st' diagram_inv_def valid_diagram_def
      by (auto simp: roles_ok_def dest!: in_set_update)
  qed
qed

lemma draw_inv:
  assumes "diagram_inv n st" "draw st = (r, st')"
  shows "diagram_inv n st'"
proof -
  from assms(1) have len: "length (buffer_textures st) = 2"
    and c: "currentOutputIn st = 0 \<or> currentOutputIn st = 1"
    by (simp_all add: diagram_inv_def valid_diagram_def)
  from array_get_pair[OF len c] assms(2)
  have "st' = st\<lparr>gpu_log := gpu_log st @ [Draw (currentOutputIn st) (1 - currentOutputIn st)]\<rparr>"
    by (auto simp: draw_def)
  then show ?thesis
    using assms(1) c by (auto simp: diagram_inv_def valid_diagram_def roles_ok_def)
qed

lemma iterations_inv:
  "diagram_inv n st \<Longrightarrow> iterations params uniforms tick iterate st = (r, st') \<Longrightarrow> diagram_inv n st'"
proof (induction params uniforms tick iterate st rule: iterations.induct)
  case (1 params uniforms tick iterate st)
  show ?case
  proof (cases "iterate < iterations_per_tick params")
    case False
    with "1.prems" show ?thesis by (simp add: iterations.simps)
  next
    case True
    obtain r1 st1 where r1: "(if u_reset (uniforms tick) then reset st else (None, st)) = (r1, st1)"
      by (cases "if u_reset (uniforms tick) then reset st else (None, st)") auto
    then have i1: "diagram_inv n st1" and n1: "r1 = None"
      using reset_inv[OF "1.prems"(1)] "1.prems"(1) by (auto split: if_splits)
    obtain r2 st2 where r2:
      "run (\<lambda>tex. karlsims_reactiondiffusion (step_props params st1 (uniforms tick) tex)) st1 = (r2, st2)"
      by (cases "run (\<lambda>tex. karlsims_reactiondiffusion (step_props params st1 (uniforms tick) tex)) st1") auto
    have i2: "diagram_inv n st2" using run_inv[OF i1 r2] .
    show ?thesis
    proof (cases r2)
      case (Some e)
      with True r1 n1 r2 "1.prems"(2) have "st' = st2"
        by (simp add: iterations.simps[of params uniforms tick iterate st] Let_def)
      with i2 show ?thesis by simp
    next
      case None
      with True r1 n1 r2 "1.prems"(2)
      have "iterations params uniforms tick (iterate + 1) st2 = (r, st')"
        by (simp add: iterations.simps[of params uniforms tick iterate st] Let_def)
      with "1.IH" True r1 n1 r2 None i2
      show ?thesis by (auto split: if_splits)
    qed
  qed
qed

lemma frame_inv:
  assumes "diagram_inv n st" "frame params uniforms ev tick st = (r, st')"
  shows "diagram_inv n st'"
proof (cases "dataset_visible ev = Some ''hidden'' \<or> visibilityState ev = ''hidden''")
  case True
  with assms show ?thesis by (simp add: frame_def)
next
  case False
  obtain r1 st1 where it: "iterations params uniforms tick 0 st = (r1, st1)"
    by (cases "iterations params uniforms tick 0 st") auto
  have i1: "diagram_inv n st1" using iterations_inv[OF assms(1) it] .
  show ?thesis
  proof (cases r1)
    case (Some e)
    with False it assms(2) have "st' = st1" by (simp add: frame_def)
    with i1 show ?thesis by simp
  next
    case None
    with False it assms(2) have "draw st1 = (r, st')" by (simp add: frame_def)
    with i1 show ?thesis by (rule draw_inv)
  qed
qed

lemma mask_texture_sampler [simp]:
  "radius (mask_texture n d) = n" "min_mag (mask_texture n d) = Nearest"
  "wrap (mask_texture n d) = Clamp"
  by (simp_all add: mask_texture_def)

lemma updateFeedMask_inv:
  assumes "diagram_inv (size_param params) st" "updateFeedMask params newFeedMask st = (r, console, st')"
  shows "diagram_inv (size_param params) st'"
  using assms
  by (auto simp: updateFeedMask_def Let_def diagram_inv_def valid_diagram_def
           split: prod.splits sum.splits option.splits)

lemma reloadInitialBitmap_inv:
  assumes "diagram_inv (size_param params) st"
  shows "diagram_inv (size_param params) (reloadInitialBitmap params host st)"
  using assms
  by (auto simp: reloadInitialBitmap_def paint_initial_def fillRect_black_def clearRect_def
                 Let_def diagram_inv_def valid_diagram_def)

lemma constructed_inv:
  assumes "makeReactionDiffusionDiagram accepts params host = Inr st"
  shows "diagram_inv (size_param params) st"
proof -
  let ?st0 = "\<lparr>feedMaskTexture = map_option (mask_texture (size_param params)) (feed_mask_param params),
                   buffer_textures = [buffer_texture (size_param params), buffer_texture (size_param params)],
                   source_bitmap =
                     paint_initial params host \<lparr>width = size_param params, pixels = (\<lambda>p. RGBA 0 0 0 0)\<rparr>,
                   currentOutputIn = 0,
                   gpu_log = []\<rparr>"
  have i0: "diagram_inv (size_param params) ?st0"
    by (auto simp: diagram_inv_def valid_diagram_def buffer_texture_def paint_initial_def
                   fillRect_black_def Let_def split: option.splits)
  from assms have "reset ?st0 = (None, st)"
    by (cases "reset ?st0")
       (auto simp: makeReactionDiffusionDiagram_def Let_def split: if_splits option.splits)
  with i0 show ?thesis using reset_inv by blast
qed

lemma reachable_inv:
  "reachable accepts params st \<Longrightarrow> diagram_inv (size_param params) st"
proof (induction rule: reachable.induct)
  case (constructed host st)
  then show ?case by (rule constructed_inv)
next
  case (after_reset st r st')
  then show ?case using reset_inv by blast
next
  case (after_frame st uniforms ev tick r st')
  then show ?case using frame_inv by blast
next
  case (after_updateFeedMask st newFeedMask r console st')
  then show ?case using updateFeedMask_inv by blast
next
  case (after_reloadInitialBitmap st host)
  then show ?case by (simp add: reloadInitialBitmap_inv)
qed

lemma constructed_ok:
  assumes "constructible accepts params"
  shows "makeReactionDiffusionDiagram accepts params host =
           Inr (snd (reset
             \<lparr>feedMaskTexture = map_option (mask_texture (size_param params)) (feed_mask_param params),
              buffer_textures = [buffer_texture (size_param params), buffer_texture (size_param params)],
              source_bitmap =
                paint_initial params host \<lparr>width = size_param params, pixels = (\<lambda>p. RGBA 0 0 0 0)\<rparr>,
              currentOutputIn = 0,
              gpu_log = []\<rparr>))"
  using assms
  by (auto simp: makeReactionDiffusionDiagram_def constructible_def reset_def array_get_def Let_def
           split: option.splits)

lemma page_constructible: "constructible (\<lambda>n. True) (main_params (replicate 65536 1))"
  by (simp add: constructible_def regl_texture_check_def isPow2_def main_params_def
        SIMULATION_SIZE_def buffer_texture_def mask_texture_def)

lemma maskless_constructible:
  "constructible (\<lambda>n. True) ((main_params [])\<lparr>feed_mask_param := None\<rparr>)"
  by (simp add: constructible_def regl_texture_check_def isPow2_def main_params_def
        SIMULATION_SIZE_def buffer_texture_def)

lemma dot_constructible: "constructible (\<lambda>n. True) dot_params"
  by (simp add: constructible_def regl_texture_check_def isPow2_def buffer_texture_def
        mask_texture_def)

lemma blank_constructible: "constructible (\<lambda>n. True) blank_params"
  by (simp add: constructible_def regl_texture_check_def isPow2_def buffer_texture_def
        mask_texture_def)

lemmas sessions_constructible =
  page_constructible maskless_constructible dot_constructible blank_constructible

lemma page_session_feedMaskTexture:
  "feedMaskTexture page_session = Some (mask_texture 256 (replicate 65536 1))"
  unfolding constructed_ok[OF page_constructible]
  by (simp add: reset_def array_get_def Let_def main_params_def SIMULATION_SIZE_def)

lemma maskless_session_feedMaskTexture: "feedMaskTexture maskless_session = None"
  unfolding constructed_ok[OF maskless_constructible]
  by (simp add: reset_def array_get_def Let_def main_params_def)

lemma v4_blend_unit:
  "v4add (v4add (v4scale 1 a) (v4scale 0 b)) (v4add (v4scale 0 c) (v4scale 0 d)) = a"
  by (cases a) (simp add: v4add_def v4scale_def)

lemma texture2D_linear_repeat_cell:
  assumes "radius t = n" "0 < n" "min_mag t = Linear" "wrap t = Repeat"
    and "fst uv * real_of_int n - 1/2 = real_of_int a"
    and "snd uv * real_of_int n - 1/2 = real_of_int b"
  shows "texture2D t uv = texels t (a mod n, b mod n)"
  using assms
  by (simp add: texture2D_def wrap_index_def Let_def v4_blend_unit)

lemma texture2D_nearest_clamp_cell:
  assumes "radius t = n" "min_mag t = Nearest" "wrap t = Clamp" "in_grid n p"
  shows "texture2D t (fragment_uv n p) = texels t p"
proof -
  from assms have n: "0 < n" by (auto simp: in_grid_def)
  have "\<lfloor>(real_of_int (fst p) + 1/2) / real_of_int n * real_of_int n\<rfloor> = fst p"
    using n by (simp add: floor_unique)
  moreover have "\<lfloor>(real_of_int (snd p) + 1/2) / real_of_int n * real_of_int n\<rfloor> = snd p"
    using n by (simp add: floor_unique)
  ultimately show ?thesis
    using assms by (simp add: texture2D_def wrap_index_def fragment_uv_def in_grid_def Let_def)
qed

lemma texture2D_center:
  assumes "radius t = n" "min_mag t = Linear" "wrap t = Repeat" "in_grid n p"
  shows "texture2D t (fragment_uv n p) = texels t p"
proof -
  from assms have n: "0 < n" by (auto simp: in_grid_def)
  have "texture2D t (fragment_uv n p) = texels t (fst p mod n, snd p mod n)"
    using assms n by (intro texture2D_linear_repeat_cell) (simp_all add: fragment_uv_def)
  then show ?thesis using assms by (simp add: in_grid_def)
qed

lemma karlsims_main_spec:
  assumes rd: "radius rd = n" "min_mag rd = Linear" "wrap rd = Repeat"
    and m: "radius m = n" "min_mag m = Nearest" "wrap m = Clamp"
    and p: "in_grid n p"
    and props: "u_texture props = rd" "resolution props = real_of_int n" "dt props = 1"
      "diffusion_rate props = diffusion_rate u" "diffusion_step props = diffusion_step u"
      "feed props = feed u" "kill props = kill u"
  shows "karlsims_main props m (fragment_uv n p) =
           Vec4 (fst (spec_step rd (vx (texels m p)) u n p))
                (snd (spec_step rd (vx (texels m p)) u n p)) 0 0"
proof -
  have c: "texture2D rd (fragment_uv n p) = texels rd p"
    using rd p by (rule texture2D_center)
  have k: "texture2D m (fragment_uv n p) = texels m p"
    using m p by (rule texture2D_nearest_clamp_cell)
  show ?thesis
    unfolding karlsims_main_def spec_step_def diffusion_def Let_def props c k
    by (simp add: v2add_def v2sub_def v2scale_def weight_cardinal_def weight_diagonal_def
                  algebra_simps)
qed

lemma valid_diagram_buffers:
  assumes "valid_diagram n st"
  shows "length (buffer_textures st) = 2"
    and "currentOutputIn st = 0 \<or> currentOutputIn st = 1"
    and "radius (buffer_textures st ! nat (currentOutputIn st)) = n"
    and "min_mag (buffer_textures st ! nat (currentOutputIn st)) = Linear"
    and "wrap (buffer_textures st ! nat (currentOutputIn st)) = Repeat"
    and "radius (buffer_textures st ! nat (1 - currentOutputIn st)) = n"
    and "min_mag (buffer_textures st ! nat (1 - currentOutputIn st)) = Linear"
    and "wrap (buffer_textures st ! nat (1 - currentOutputIn st)) = Repeat"
proof -
  from assms show len: "length (buffer_textures st) = 2"
    and c: "currentOutputIn st = 0 \<or> currentOutputIn st = 1"
    by (simp_all add: valid_diagram_def)
  from len c have "buffer_textures st ! nat (currentOutputIn st) \<in> set (buffer_textures st)"
    "buffer_textures st ! nat (1 - currentOutputIn st) \<in> set (buffer_textures st)"
    by (auto simp: nth_mem)
  with assms show "radius (buffer_textures st ! nat (currentOutputIn st)) = n"
    "min_mag (buffer_textures st ! nat (currentOutputIn st)) = Linear"
    "wrap (buffer_textures st ! nat (currentOutputIn st)) = Repeat"
    "radius (buffer_textures st ! nat (1 - currentOutputIn st)) = n"
    "min_mag (buffer_textures st ! nat (1 - currentOutputIn st)) = Linear"
    "wrap (buffer_textures st ! nat (1 - currentOutputIn st)) = Repeat"
    by (simp_all add: valid_diagram_def)
qed

lemma run_karlsims:
  assumes v: "valid_diagram n st" and fm: "feedMaskTexture st = Some m"
  shows "run (\<lambda>tex. karlsims_reactiondiffusion (step_props params st u tex)) st =
     (None,
      st\<lparr>buffer_textures := (buffer_textures st)
            [nat (1 - currentOutputIn st) :=
               render (buffer_textures st ! nat (1 - currentOutputIn st))
                 (karlsims_main (step_props params st u (buffer_textures st ! nat (currentOutputIn st))) m)],
         currentOutputIn := 1 - currentOutputIn st,
         gpu_log := gpu_log st @ [Step (currentOutputIn st) (1 - currentOutputIn st)]\<rparr>)"
  using array_get_pair[OF valid_diagram_buffers(1,2)[OF v]] fm
  by (simp add: run_def Let_def karlsims_reactiondiffusion_def step_props_def)

lemma canvas_texture_sampler [simp]:
  "radius (canvas_texture c) = width c" "min_mag (canvas_texture c) = Nearest"
  "wrap (canvas_texture c) = Clamp" "texels (canvas_texture c) p = texel_of_rgba (pixels c p)"
  by (simp_all add: canvas_texture_def)

lemma diffusion_cell_step:
  assumes t: "radius t = n" "min_mag t = Linear" "wrap t = Repeat" and n: "0 < n"
  shows "diffusion t (fragment_uv n (i, j)) (real_of_int k / real_of_int n) =
     v2add (v2scale weight_cardinal
              (v2add (v2add (v2add (xy (texels t ((i - k) mod n, j mod n)))
                                   (xy (texels t ((i + k) mod n, j mod n))))
                            (xy (texels t (i mod n, (j - k) mod n))))
                     (xy (texels t (i mod n, (j + k) mod n)))))
           (v2scale weight_diagonal
              (v2add (v2add (v2add (xy (texels t ((i - k) mod n, (j - k) mod n)))
                                   (xy (texels t ((i + k) mod n, (j - k) mod n))))
                            (xy (texels t ((i - k) mod n, (j + k) mod n))))
                     (xy (texels t ((i + k) mod n, (j + k) mod n)))))"
proof -
  let ?pos = "fragment_uv n (i, j)"
  let ?dx = "(real_of_int k / real_of_int n, 0 :: real)"
  let ?dy = "(0 :: real, real_of_int k / real_of_int n)"
  have w: "texture2D t (v2sub ?pos ?dx) = texels t ((i - k) mod n, j mod n)"
    using n by (intro texture2D_linear_repeat_cell t)
               (simp_all add: v2sub_def v2add_def fragment_uv_def field_simps)
  have e: "texture2D t (v2add ?pos ?dx) = texels t ((i + k) mod n, j mod n)"
    using n by (intro texture2D_linear_repeat_cell t)
               (simp_all add: v2sub_def v2add_def fragment_uv_def field_simps)
  have s: "texture2D t (v2sub ?pos ?dy) = texels t (i mod n, (j - k) mod n)"
    using n by (intro texture2D_linear_repeat_cell t)
               (simp_all add: v2sub_def v2add_def fragment_uv_def field_simps)
  have nn: "texture2D t (v2add ?pos ?dy) = texels t (i mod n, (j + k) mod n)"
    using n by (intro texture2D_linear_repeat_cell t)
               (simp_all add: v2sub_def v2add_def fragment_uv_def field_simps)
  have sw: "texture2D t (v2sub (v2sub ?pos ?dx) ?dy) = texels t ((i - k) mod n, (j - k) mod n)"
    using n by (intro texture2D_linear_repeat_cell t)
               (simp_all add: v2sub_def v2add_def fragment_uv_def field_simps)
  have se: "texture2D t (v2sub (v2add ?pos ?dx) ?dy) = texels t ((i + k) mod n, (j - k) mod n)"
    using n by (intro texture2D_linear_repeat_cell t)
               (simp_all add: v2sub_def v2add_def fragment_uv_def field_simps)
  have nw: "texture2D t (v2add (v2sub ?pos ?dx) ?dy) = texels t ((i - k) mod n, (j + k) mod n)"
    using n by (intro texture2D_linear_repeat_cell t)
               (simp_all add: v2sub_def v2add_def fragment_uv_def field_simps)
  have ne: "texture2D t (v2add (v2add ?pos ?dx) ?dy) = texels t ((i + k) mod n, (j + k) mod n)"
    using n by (intro texture2D_linear_repeat_cell t)
               (simp_all add: v2sub_def v2add_def fragment_uv_def field_simps)
  show ?thesis
    unfolding diffusion_def Let_def w e s nn sw se nw ne ..
qed

lemma karlsims_main_cell_step:
  assumes rd: "radius rd = n" "min_mag rd = Linear" "wrap rd = Repeat"
    and m: "radius m = n" "min_mag m = Nearest" "wrap m = Clamp"
    and p: "in_grid n (i, j)"
    and props: "u_texture props = rd" "resolution props = real_of_int n" "dt props = 1"
      "diffusion_step props = real_of_int k"
  shows "karlsims_main props m (fragment_uv n (i, j)) =
     Vec4
      (vx (texels rd (i, j))
       + (diffusion_rate props *
            (0.2 * (vx (texels rd ((i - k) mod n, j mod n)) + vx (texels rd ((i + k) mod n, j mod n))
                    + vx (texels rd (i mod n, (j - k) mod n)) + vx (texels rd (i mod n, (j + k) mod n)))
             + 0.05 * (vx (texels rd ((i - k) mod n, (j - k) mod n))
                       + vx (texels rd ((i + k) mod n, (j - k) mod n))
                       + vx (texels rd ((i - k) mod n, (j + k) mod n))
                       + vx (texels rd ((i + k) mod n, (j + k) mod n)))
             - vx (texels rd (i, j)))
          - vx (texels rd (i, j)) * vy (texels rd (i, j)) * vy (texels rd (i, j))
          + feed props * vx (texels m (i, j)) * (1 - vx (texels rd (i, j)))))
      (vy (texels rd (i, j))
       + (diffusion_rate props * 0.5 *
            (0.2 * (vy (texels rd ((i - k) mod n, j mod n)) + vy (texels rd ((i + k) mod n, j mod n))
                    + vy (texels rd (i mod n, (j - k) mod n)) + vy (texels rd (i mod n, (j + k) mod n)))
             + 0.05 * (vy (texels rd ((i - k) mod n, (j - k) mod n))
                       + vy (texels rd ((i + k) mod n, (j - k) mod n))
                       + vy (texels rd ((i - k) mod n, (j + k) mod n))
                       + vy (texels rd ((i + k) mod n, (j + k) mod n)))
             - vy (texels rd (i, j)))
          + vx (texels rd (i, j)) * vy (texels rd (i, j)) * vy (texels rd (i, j))
          - (kill props + feed props * vx (texels m (i, j))) * vy (texels rd (i, j))))
      0 0"
proof -
  from p have n: "0 < n" by (auto simp: in_grid_def)
  have c: "texture2D rd (fragment_uv n (i, j)) = texels rd (i, j)"
    using rd p by (rule texture2D_center)
  have k: "texture2D m (fragment_uv n (i, j)) = texels m (i, j)"
    using m p by (rule texture2D_nearest_clamp_cell)
  show ?thesis
    unfolding karlsims_main_def Let_def props c k diffusion_cell_step[OF rd n]
    by (simp add: v2add_def v2sub_def v2scale_def xy_def weight_cardinal_def weight_diagonal_def
                  algebra_simps)
qed

lemma karlsims_main_vx_unit_step:
  assumes rd: "radius rd = n" "min_mag rd = Linear" "wrap rd = Repeat"
    and m: "radius m = n" "min_mag m = Nearest" "wrap m = Clamp"
    and p: "in_grid n (i, j)"
    and props: "u_texture props = rd" "resolution props = real_of_int n" "dt props = 1"
      "diffusion_step props = 1"
  shows "vx (karlsims_main props m (fragment_uv n (i, j))) =
     vx (texels rd (i, j))
     + (diffusion_rate props *
          (0.2 * (vx (texels rd ((i - 1) mod n, j mod n)) + vx (texels rd ((i + 1) mod n, j mod n))
                  + vx (texels rd (i mod n, (j - 1) mod n)) + vx (texels rd (i mod n, (j + 1) mod n)))
           + 0.05 * (vx (texels rd ((i - 1) mod n, (j - 1) mod n))
                     + vx (texels rd ((i + 1) mod n, (j - 1) mod n))
                     + vx (texels rd ((i - 1) mod n, (j + 1) mod n))
                     + vx (texels rd ((i + 1) mod n, (j + 1) mod n)))
           - vx (texels rd (i, j)))
        - vx (texels rd (i, j)) * vy (texels rd (i, j)) * vy (texels rd (i, j))
        + feed props * vx (texels m (i, j)) * (1 - vx (texels rd (i, j))))"
proof -
  have "diffusion_step props = real_of_int 1" using props by simp
  from karlsims_main_cell_step[OF rd m p props(1,2,3) this] show ?thesis by simp
qed

lemma succ_mod_neq: "2 \<le> n \<Longrightarrow> 0 \<le> y \<Longrightarrow> y < n \<Longrightarrow> (y + 1) mod n \<noteq> (y::int)"
  by (cases "y + 1 = n") (auto simp: mod_pos_pos_trivial)

lemma pred_mod_neq: "2 \<le> n \<Longrightarrow> 0 \<le> y \<Longrightarrow> y < n \<Longrightarrow> (y - 1) mod n \<noteq> (y::int)"
proof (cases "y = 0")
  case True
  assume "2 \<le> n"
  then have "(- 1) mod n = n - 1" by (simp add: zmod_minus1)
  with True \<open>2 \<le> n\<close> show ?thesis by simp
next
  case False
  assume "2 \<le> n" "0 \<le> y" "y < n"
  with False have "(y - 1) mod n = y - 1" by (simp add: mod_pos_pos_trivial)
  then show ?thesis by simp
qed

lemma run_karlsims_texel:
  assumes v: "valid_diagram n st" and fm: "feedMaskTexture st = Some m" and p: "in_grid n p"
  shows "texels (buffer_textures
            (snd (run (\<lambda>tex. karlsims_reactiondiffusion (step_props params st u tex)) st))
            ! nat (1 - currentOutputIn st)) p =
         karlsims_main (step_props params st u (buffer_textures st ! nat (currentOutputIn st))) m
           (fragment_uv n p)"
proof -
  note b = valid_diagram_buffers[OF v]
  have w: "nat (1 - currentOutputIn st) < length (buffer_textures st)"
    using b(1,2) by auto
  show ?thesis
    unfolding run_karlsims[OF v fm]
    using w p b(6) by (simp add: render_def)
qed

lemma session_eq:
  assumes "constructible (\<lambda>n. True) params"
  shows "projr (makeReactionDiffusionDiagram (\<lambda>n. True) params host) =
     snd (reset
             \<lparr>feedMaskTexture = map_option (mask_texture (size_param params)) (feed_mask_param params),
              buffer_textures = [buffer_texture (size_param params), buffer_texture (size_param params)],
              source_bitmap =
                paint_initial params host \<lparr>width = size_param params, pixels = (\<lambda>p. RGBA 0 0 0 0)\<rparr>,
              currentOutputIn = 0,
              gpu_log = []\<rparr>)"
  by (simp add: constructed_ok[OF assms])

lemma session_reachable:
  assumes "constructible (\<lambda>n. True) params"
  shows "reachable (\<lambda>n. True) params (projr (makeReactionDiffusionDiagram (\<lambda>n. True) params host))"
  by (rule reachable.constructed[of _ _ host]) (simp add: constructed_ok[OF assms])

lemma session_valid:
  assumes "constructible (\<lambda>n. True) params"
  shows "valid_diagram (size_param params)
           (projr (makeReactionDiffusionDiagram (\<lambda>n. True) params host))"
  using reachable_inv[OF session_reachable[OF assms, of host]] by (simp add: diagram_inv_def)

lemma session_fields:
  assumes "constructible (\<lambda>n. True) params"
  shows "currentOutputIn (projr (makeReactionDiffusionDiagram (\<lambda>n. True) params host)) = 0"
    and "feedMaskTexture (projr (makeReactionDiffusionDiagram (\<lambda>n. True) params host)) =
           map_option (mask_texture (size_param params)) (feed_mask_param params)"
  by (simp_all add: session_eq[OF assms] reset_def array_get_def Let_def)

lemma dot_buffer:
  "in_grid 4 q \<Longrightarrow> texels (buffer_textures dot_session ! 0) q =
     (if q = (0, 1) then Vec4 1 0 0 1 else Vec4 0 0 0 1)"
  by (simp add: session_eq sessions_constructible reset_def array_get_def Let_def render_def
       paint_from_bitmap_def
       texture2D_center texture2D_nearest_clamp_cell buffer_texture_def paint_initial_def
       fillRect_black_def mix_def v4add_def v4scale_def texel_of_rgba_def)

lemma blank_buffer:
  "in_grid 4 q \<Longrightarrow> texels (buffer_textures blank_session ! 0) q = Vec4 0 0 0 1"
  by (simp add: session_eq sessions_constructible reset_def array_get_def Let_def render_def
       paint_from_bitmap_def
       texture2D_center texture2D_nearest_clamp_cell buffer_texture_def paint_initial_def
       fillRect_black_def mix_def v4add_def v4scale_def texel_of_rgba_def)

lemma session_read_buffer:
  assumes "constructible (\<lambda>n. True) params"
  shows "radius (buffer_textures (projr (makeReactionDiffusionDiagram (\<lambda>n. True) params host)) ! 0)
           = size_param params"
    and "min_mag (buffer_textures (projr (makeReactionDiffusionDiagram (\<lambda>n. True) params host)) ! 0)
           = Linear"
    and "wrap (buffer_textures (projr (makeReactionDiffusionDiagram (\<lambda>n. True) params host)) ! 0)
           = Repeat"
  using valid_diagram_buffers(3,4,5)[OF session_valid[OF assms, of host]]
  by (simp_all add: session_fields[OF assms])

lemma step_props_fields:
  "u_texture (step_props params st u tex) = tex"
  "resolution (step_props params st u tex) = real_of_int (size_param params)"
  "dt (step_props params st u tex) = 1"
  "diffusion_rate (step_props params st u tex) = diffusion_rate u"
  "diffusion_step (step_props params st u tex) = diffusion_step u"
  "feed (step_props params st u tex) = feed u"
  "kill (step_props params st u tex) = kill u"
  by (simp_all add: step_props_def)

lemma mask_ones_texel:
  "in_grid 4 q \<Longrightarrow> texels (mask_texture 4 (replicate 16 1)) q = Vec4 1 1 1 1"
  by (auto simp: mask_texture_def in_grid_def Let_def intro!: nth_replicate)

lemma scenario_step_texel:
  assumes con: "constructible (\<lambda>n. True) params"
    and "size_param params = 4" "feed_mask_param params = Some (replicate 16 1)"
    and "in_grid 4 (i, j)"
  shows "texels (buffer_textures
      (snd (run (\<lambda>tex. karlsims_reactiondiffusion
                   (step_props params (projr (makeReactionDiffusionDiagram (\<lambda>n. True) params host))
                      (scenario_uniforms (real_of_int k)) tex))
             (projr (makeReactionDiffusionDiagram (\<lambda>n. True) params host)))) ! 1) (i, j) =
     karlsims_main
       (step_props params (projr (makeReactionDiffusionDiagram (\<lambda>n. True) params host))
          (scenario_uniforms (real_of_int k))
          (buffer_textures (projr (makeReactionDiffusionDiagram (\<lambda>n. True) params host)) ! 0))
       (mask_texture 4 (replicate 16 1)) (fragment_uv 4 (i, j))"
  using run_karlsims_texel[OF session_valid[OF con, of host], of "mask_texture 4 (replicate 16 1)" "(i, j)"
          params "scenario_uniforms (real_of_int k)"] assms
  by (simp add: session_fields[OF con])

lemma scenario_cell_value:
  assumes con: "constructible (\<lambda>n. True) params"
    and sz: "size_param params = 4" and fmp: "feed_mask_param params = Some (replicate 16 1)"
    and g: "in_grid 4 (i, j)"
  shows "texels (buffer_textures
      (snd (run (\<lambda>tex. karlsims_reactiondiffusion
                   (step_props params (projr (makeReactionDiffusionDiagram (\<lambda>n. True) params host))
                      (scenario_uniforms (real_of_int k)) tex))
             (projr (makeReactionDiffusionDiagram (\<lambda>n. True) params host)))) ! 1) (i, j) =
     (let rd = buffer_textures (projr (makeReactionDiffusionDiagram (\<lambda>n. True) params host)) ! 0 in
      Vec4
      (vx (texels rd (i, j))
       + (0.7 *
            (0.2 * (vx (texels rd ((i - k) mod 4, j mod 4)) + vx (texels rd ((i + k) mod 4, j mod 4))
                    + vx (texels rd (i mod 4, (j - k) mod 4)) + vx (texels rd (i mod 4, (j + k) mod 4)))
             + 0.05 * (vx (texels rd ((i - k) mod 4, (j - k) mod 4))
                       + vx (texels rd ((i + k) mod 4, (j - k) mod 4))
                       + vx (texels rd ((i - k) mod 4, (j + k) mod 4))
                       + vx (texels rd ((i + k) mod 4, (j + k) mod 4)))
             - vx (texels rd (i, j)))
          - vx (texels rd (i, j)) * vy (texels rd (i, j)) * vy (texels rd (i, j))
          + 0.03 * 1 * (1 - vx (texels rd (i, j)))))
      (vy (texels rd (i, j))
       + (0.7 * 0.5 *
            (0.2 * (vy (texels rd ((i - k) mod 4, j mod 4)) + vy (texels rd ((i + k) mod 4, j mod 4))
                    + vy (texels rd (i mod 4, (j - k) mod 4)) + vy (texels rd (i mod 4, (j + k) mod 4)))
             + 0.05 * (vy (texels rd ((i - k) mod 4, (j - k) mod 4))
                       + vy (texels rd ((i + k) mod 4, (j - k) mod 4))
                       + vy (texels rd ((i - k) mod 4, (j + k) mod 4))
                       + vy (texels rd ((i + k) mod 4, (j + k) mod 4)))
             - vy (texels rd (i, j)))
          + vx (texels rd (i, j)) * vy (texels rd (i, j)) * vy (texels rd (i, j))
          - (0.06 + 0.03 * 1) * vy (texels rd (i, j))))
      0 0)"
proof -
  let ?st = "projr (makeReactionDiffusionDiagram (\<lambda>n. True) params host)"
  let ?props = "step_props params ?st (scenario_uniforms (real_of_int k)) (buffer_textures ?st ! 0)"
  note f = karlsims_main_cell_step[where rd = "buffer_textures ?st ! 0" and n = 4
      and m = "mask_texture 4 (replicate 16 1)" and i = i and j = j and k = k
      and props = ?props]
  have "karlsims_main ?props (mask_texture 4 (replicate 16 1)) (fragment_uv 4 (i, j)) =
     (let rd = buffer_textures ?st ! 0 in
      Vec4
      (vx (texels rd (i, j))
       + (0.7 *
            (0.2 * (vx (texels rd ((i - k) mod 4, j mod 4)) + vx (texels rd ((i + k) mod 4, j mod 4))
                    + vx (texels rd (i mod 4, (j - k) mod 4)) + vx (texels rd (i mod 4, (j + k) mod 4)))
             + 0.05 * (vx (texels rd ((i - k) mod 4, (j - k) mod 4))
                       + vx (texels rd ((i + k) mod 4, (j - k) mod 4))
                       + vx (texels rd ((i - k) mod 4, (j + k) mod 4))
                       + vx (texels rd ((i + k) mod 4, (j + k) mod 4)))
             - vx (texels rd (i, j)))
          - vx (texels rd (i, j)) * vy (texels rd (i, j)) * vy (texels rd (i, j))
          + 0.03 * 1 * (1 - vx (texels rd (i, j)))))
      (vy (texels rd (i, j))
       + (0.7 * 0.5 *
            (0.2 * (vy (texels rd ((i - k) mod 4, j mod 4)) + vy (texels rd ((i + k) mod 4, j mod 4))
                    + vy (texels rd (i mod 4, (j - k) mod 4)) + vy (texels rd (i mod 4, (j + k) mod 4)))
             + 0.05 * (vy (texels rd ((i - k) mod 4, (j - k) mod 4))
                       + vy (texels rd ((i + k) mod 4, (j - k) mod 4))
                       + vy (texels rd ((i - k) mod 4, (j + k) mod 4))
                       + vy (texels rd ((i + k) mod 4, (j + k) mod 4)))
             - vy (texels rd (i, j)))
          + vx (texels rd (i, j)) * vy (texels rd (i, j)) * vy (texels rd (i, j))
          - (0.06 + 0.03 * 1) * vy (texels rd (i, j))))
      0 0)"
    using session_read_buffer[OF con, of host] sz g
    by (subst f) (simp_all add: step_props_fields mask_ones_texel Let_def)
  then show ?thesis
    using scenario_step_texel[OF con sz fmp g, of host k] by simp
qed

lemma dot_far_step:
  "texels (buffer_textures
      (snd (run (\<lambda>tex. karlsims_reactiondiffusion (step_props dot_params dot_session (scenario_uniforms 2) tex))
             dot_session)) ! 1) (3, 1) = Vec4 (3/100) 0 0 0"
  using scenario_cell_value[OF dot_constructible, of 3 1 "()" 2]
  by (simp add: dot_buffer in_grid_def Let_def)

lemma blank_far_step:
  "texels (buffer_textures
      (snd (run (\<lambda>tex. karlsims_reactiondiffusion (step_props blank_params blank_session (scenario_uniforms 2) tex))
             blank_session)) ! 1) (3, 1) = Vec4 (3/100) 0 0 0"
  using scenario_cell_value[OF blank_constructible, of 3 1 "()" 2]
  by (simp add: blank_buffer in_grid_def Let_def)

lemma dot_near_step:
  "texels (buffer_textures
      (snd (run (\<lambda>tex. karlsims_reactiondiffusion (step_props dot_params dot_session (scenario_uniforms 1) tex))
             dot_session)) ! 1) (3, 1) = Vec4 (17/100) 0 0 0"
  using scenario_cell_value[OF dot_constructible, of 3 1 "()" 1]
  by (simp add: dot_buffer in_grid_def Let_def)

lemma blank_near_step:
  "texels (buffer_textures
      (snd (run (\<lambda>tex. karlsims_reactiondiffusion (step_props dot_params blank_session (scenario_uniforms 1) tex))
             blank_session)) ! 1) (3, 1) = Vec4 (3/100) 0 0 0"
proof -
  have "step_props dot_params blank_session = step_props blank_params blank_session"
    by (simp add: step_props_def fun_eq_iff)
  then show ?thesis
    using scenario_cell_value[OF blank_constructible, of 3 1 "()" 1]
    by (simp add: blank_buffer in_grid_def Let_def)
qed

lemma reset_eq:
  assumes v: "valid_diagram n st"
  shows "reset st = (None,
              st\<lparr>buffer_textures := (buffer_textures st)
                     [nat (currentOutputIn st) :=
                        render (buffer_textures st ! nat (currentOutputIn st))
                          (paint_from_bitmap (buffer_textures st ! nat (1 - currentOutputIn st))
                             (canvas_texture (source_bitmap st)))],
                 gpu_log := gpu_log st @ [Paint (currentOutputIn st) (1 - currentOutputIn st)]\<rparr>)"
  using array_get_pair[OF valid_diagram_buffers(1,2)[OF v]] by (simp add: reset_def Let_def)

lemma reset_texel:
  assumes v: "valid_diagram n st" and p: "in_grid n p"
  shows "texels (buffer_textures (snd (reset st)) ! nat (currentOutputIn st)) p =
           mix (texels (buffer_textures st ! nat (1 - currentOutputIn st)) p)
               (texel_of_rgba (pixels (source_bitmap st) p))
               (real_of_int (alpha (pixels (source_bitmap st) p)) / 255)"
proof -
  let ?old = "buffer_textures st ! nat (1 - currentOutputIn st)"
  let ?tgt = "buffer_textures st ! nat (currentOutputIn st)"
  let ?src = "canvas_texture (source_bitmap st)"
  note b = valid_diagram_buffers[OF v]
  from v have wd: "width (source_bitmap st) = n" by (simp add: valid_diagram_def)
  have o: "texture2D ?old (fragment_uv n p) = texels ?old p"
    using b(6,7,8) p by (rule texture2D_center)
  have s: "texture2D ?src (fragment_uv n p) = texels ?src p"
    by (rule texture2D_nearest_clamp_cell) (simp_all add: wd p)
  have w: "nat (currentOutputIn st) < length (buffer_textures st)"
    using b(1,2) by auto
  show ?thesis
    unfolding reset_eq[OF v]
    using w p b(3) by (simp add: render_def paint_from_bitmap_def Let_def o s texel_of_rgba_def)
qed

lemma mix_opaque:
  "alpha c = 255 \<Longrightarrow>
     mix old (texel_of_rgba c) (real_of_int (alpha c) / 255) =
     Vec4 (real_of_int (red c) / 255) (real_of_int (green c) / 255) (real_of_int (blue c) / 255) 1"
  by (simp add: mix_def v4add_def v4scale_def texel_of_rgba_def)

lemma session_source_bitmap:
  assumes "constructible (\<lambda>n. True) params"
  shows "source_bitmap (projr (makeReactionDiffusionDiagram (\<lambda>n. True) params host)) =
     paint_initial params host \<lparr>width = size_param params, pixels = (\<lambda>p. RGBA 0 0 0 0)\<rparr>"
  by (simp add: session_eq[OF assms] reset_def array_get_def Let_def)

lemma grey_pixel: "pixels (source_bitmap grey_session) (0, 0) = RGBA 127 127 127 255"
  unfolding session_source_bitmap[OF page_constructible]
  by (simp add: paint_initial_def main_params_def
        main_initial_bitmap_def
        fillRect_black_def Let_def in_grid_def IMAGE_SIZE_def SIMULATION_SIZE_def brightness_def)

lemma grey_valid: "valid_diagram 256 grey_session"
  using session_valid[OF page_constructible, of "replicate 65536 (1/2)"]
  by (simp add: main_params_def SIMULATION_SIZE_def)

lemma dot_pixel: "pixels (source_bitmap dot_session) (0, 1) = RGBA 255 0 0 255"
  by (simp add: session_source_bitmap[OF dot_constructible] paint_initial_def Let_def
        fillRect_black_def)

lemma run_maskless:
  assumes v: "valid_diagram n st" and fm: "feedMaskTexture st = None"
  shows "run (\<lambda>tex. karlsims_reactiondiffusion (step_props params st u tex)) st =
           (Some (InvalidUniform ''feed_mask''), st)"
  using array_get_pair[OF valid_diagram_buffers(1,2)[OF v]] fm
  by (simp add: run_def Let_def karlsims_reactiondiffusion_def step_props_def)

lemma iterations_maskless:
  assumes v: "valid_diagram n st" and fm: "feedMaskTexture st = None"
    and i: "iterate < iterations_per_tick params" and u: "\<not> u_reset (uniforms tick)"
  shows "iterations params uniforms tick iterate st = (Some (InvalidUniform ''feed_mask''), st)"
  using i u by (subst iterations.simps) (simp add: run_maskless[OF v fm] Let_def)

lemma frame_maskless:
  assumes v: "valid_diagram n st" and fm: "feedMaskTexture st = None"
    and vis: "dataset_visible ev \<noteq> Some ''hidden''" "visibilityState ev \<noteq> ''hidden''"
    and i: "0 < iterations_per_tick params" and u: "\<not> u_reset (uniforms tick)"
  shows "frame params uniforms ev tick st = (Some (InvalidUniform ''feed_mask''), st)"
  using vis iterations_maskless[where uniforms = uniforms and tick = tick, OF v fm i u]
  by (simp add: frame_def)

lemma maskless_valid: "valid_diagram 256 maskless_session"
  using session_valid[OF maskless_constructible, of "replicate 65536 1"]
  by (simp add: main_params_def SIMULATION_SIZE_def)

section \<open>The stencil step (C1)\<close>

text \<open>
  \<^bold>\<open>C1.\<close> For every cell \<open>p\<close> of the grid, one stencil step (\<open>run\<close> with the
  \<open>karlsims_reactiondiffusion\<close> command, as the frame callback calls it) succeeds, swaps
  \<open>currentOutputIn\<close>, and writes into the buffer that was next the texel \<open>(A', B', 0, 0)\<close>
  of the specification's formula \<open>spec_step\<close>: \<open>A' = A + dt * (diffusion_rate * blur.x -
  reaction + local_feed * (1 - A))\<close> and \<open>B' = B + dt * (0.5 * diffusion_rate * blur.y +
  reaction - (kill + local_feed) * B)\<close>, where \<open>(A, B)\<close> is the read buffer's texel at \<open>p\<close>,
  \<open>reaction = A * B * B\<close>, \<open>local_feed = feed * mask(p)\<close>, \<open>dt = 1.0\<close>, and \<open>blur\<close> is
  \<open>0.2 * (N + S + E + W) + 0.05 * (NE + NW + SE + SW) - center\<close> with the neighbours sampled
  from the read buffer at the offset \<open>diffusion_step / resolution\<close>. The state is any valid
  state whose mask texture was made from the array \<open>data\<close>, and \<open>mask(p)\<close> is
  \<open>data[y * size + x]\<close>.
\<close>

theorem stencil_step_formula:
  assumes v: "valid_diagram (size_param params) st"
    and fm: "feedMaskTexture st = Some (mask_texture (size_param params) data)"
    and len: "length data = nat (size_param params * size_param params)"
    and p: "in_grid (size_param params) p"
  shows "\<exists>st'. run (\<lambda>tex. karlsims_reactiondiffusion (step_props params st u tex)) st = (None, st')
       \<and> currentOutputIn st' = 1 - currentOutputIn st
       \<and> texels (buffer_textures st' ! nat (1 - currentOutputIn st)) p =
           Vec4 (fst (spec_step (buffer_textures st ! nat (currentOutputIn st))
                        (data ! nat (snd p * size_param params + fst p)) u (size_param params) p))
                (snd (spec_step (buffer_textures st ! nat (currentOutputIn st))
                        (data ! nat (snd p * size_param params + fst p)) u (size_param params) p))
                0 0"
proof -
  let ?n = "size_param params"
  let ?rd = "buffer_textures st ! nat (currentOutputIn st)"
  let ?wr = "buffer_textures st ! nat (1 - currentOutputIn st)"
  let ?m = "mask_texture ?n data"
  note b = valid_diagram_buffers[OF v]
  have main: "karlsims_main (step_props params st u ?rd) ?m (fragment_uv ?n p) =
           Vec4 (fst (spec_step ?rd (vx (texels ?m p)) u ?n p))
                (snd (spec_step ?rd (vx (texels ?m p)) u ?n p)) 0 0"
    by (rule karlsims_main_spec[OF b(3,4,5) _ _ _ p]) (simp_all add: step_props_def)
  have mp: "vx (texels ?m p) = data ! nat (snd p * ?n + fst p)"
    by (simp add: mask_texture_def Let_def)
  have w: "nat (1 - currentOutputIn st) < length (buffer_textures st)"
    using b(1,2) by auto
  show ?thesis
    unfolding run_karlsims[OF v fm]
    using w p b(6) main mp by (simp add: render_def)
qed

text \<open>
  The scenario of the specification, with the seeded cell at the edge: the cell \<open>(3, 1)\<close>
  of the \<open>4 \<times> 4\<close> grid receives \<open>0.7 * 0.2 * 1.0\<close> from its neighbour across the edge and
  \<open>0.03\<close> from the feed; \<open>B\<close> stays \<open>0\<close>.
\<close>

theorem stencil_step_formula_witness:
  "valid_diagram (size_param dot_params) dot_session
   \<and> feedMaskTexture dot_session = Some (mask_texture (size_param dot_params) (replicate 16 1))
   \<and> in_grid (size_param dot_params) (3, 1)
   \<and> spec_step (buffer_textures dot_session ! 0) 1 (scenario_uniforms 1) 4 (3, 1) = (17/100, 0)
   \<and> texels (buffer_textures
          (snd (run (\<lambda>tex. karlsims_reactiondiffusion
                       (step_props dot_params dot_session (scenario_uniforms 1) tex)) dot_session)) ! 1)
          (3, 1) = Vec4 (17/100) 0 0 0"
proof -
  have v: "valid_diagram (size_param dot_params) dot_session"
    using session_valid[OF dot_constructible, of "()"] by simp
  have fm: "feedMaskTexture dot_session = Some (mask_texture (size_param dot_params) (replicate 16 1))"
    by (simp add: session_fields sessions_constructible)
  have len: "length (replicate 16 (1::real)) = nat (size_param dot_params * size_param dot_params)"
    by simp
  have p: "in_grid (size_param dot_params) (3, 1)" by (simp add: in_grid_def)
  from stencil_step_formula[OF v fm len p, of "scenario_uniforms 1"] dot_near_step
  have "Vec4 (fst (spec_step (buffer_textures dot_session ! 0) 1 (scenario_uniforms 1) 4 (3, 1)))
             (snd (spec_step (buffer_textures dot_session ! 0) 1 (scenario_uniforms 1) 4 (3, 1))) 0 0
        = Vec4 (17/100) 0 0 0"
    by (auto simp: session_fields sessions_constructible)
  then have "spec_step (buffer_textures dot_session ! 0) 1 (scenario_uniforms 1) 4 (3, 1) = (17/100, 0)"
    by (simp add: prod_eq_iff)
  with v fm p dot_near_step show ?thesis by simp
qed

section \<open>The seed after a reset (C2)\<close>

text \<open>
  \<^bold>\<open>C2\<close>, as the code has it. For every cell \<open>p\<close> of the grid, \<open>reset\<close> succeeds, keeps
  \<open>currentOutputIn\<close>, and leaves in the read buffer (the buffer of \<open>currentOutputIn\<close>) the
  blend \<open>mix(old, seed, alpha)\<close> of the other buffer's texel with the seed bitmap's pixel,
  its bytes scaled by \<open>1/255\<close>. Where the pixel has full alpha the blend is the seed pixel
  alone: channel \<open>A\<close> is its red byte over \<open>255\<close> and channel \<open>B\<close> its green byte over \<open>255\<close>.
  Channel \<open>B\<close> is therefore \<open>0\<close> only where the bitmap's green channel is \<open>0\<close>.
\<close>

theorem reset_paints_bitmap:
  assumes v: "valid_diagram n st" and p: "in_grid n p"
  shows "\<exists>st'. reset st = (None, st')
       \<and> currentOutputIn st' = currentOutputIn st
       \<and> texels (buffer_textures st' ! nat (currentOutputIn st')) p =
           mix (texels (buffer_textures st ! nat (1 - currentOutputIn st)) p)
               (texel_of_rgba (pixels (source_bitmap st) p))
               (real_of_int (alpha (pixels (source_bitmap st) p)) / 255)
       \<and> (alpha (pixels (source_bitmap st) p) = 255 \<longrightarrow>
            texels (buffer_textures st' ! nat (currentOutputIn st')) p =
              Vec4 (real_of_int (red (pixels (source_bitmap st) p)) / 255)
                   (real_of_int (green (pixels (source_bitmap st) p)) / 255)
                   (real_of_int (blue (pixels (source_bitmap st) p)) / 255) 1)"
  using reset_texel[OF v p] mix_opaque[of "pixels (source_bitmap st) p"]
  unfolding reset_eq[OF v] by simp

theorem reset_paints_bitmap_witness:
  "valid_diagram 4 dot_session \<and> in_grid 4 (0, 1)
   \<and> pixels (source_bitmap dot_session) (0, 1) = RGBA 255 0 0 255
   \<and> fst (reset dot_session) = None
   \<and> texels (buffer_textures (snd (reset dot_session))
               ! nat (currentOutputIn (snd (reset dot_session)))) (0, 1)
       = Vec4 1 0 0 1"
proof -
  have v: "valid_diagram 4 dot_session" using session_valid[OF dot_constructible, of "()"] by simp
  have p: "in_grid 4 (0, 1)" by (simp add: in_grid_def)
  from reset_paints_bitmap[OF v p] dot_pixel v p show ?thesis by auto
qed

text \<open>
  The claim as stated fails on the page's own seed. \<open>initial_bitmap\<close> of the page paints a grey
  pixel \<open>(b, b, b, 255)\<close> with \<open>b = floor(255 * clamp(v))\<close>; for the seed value \<open>1/2\<close> the
  read buffer holds \<open>127/255\<close> in channel \<open>A\<close>, which is not \<open>1/2\<close>, and \<open>127/255\<close> in
  channel \<open>B\<close>, which is not \<open>0\<close>.
\<close>

theorem reset_channel_B_counterexample:
  "replicate 65536 (1/2 :: real) ! 0 = 1/2
   \<and> pixels (source_bitmap grey_session) (0, 0) = RGBA 127 127 127 255
   \<and> texels (buffer_textures (snd (reset grey_session))
               ! nat (currentOutputIn (snd (reset grey_session)))) (0, 0)
       = Vec4 (127/255) (127/255) (127/255) 1"
  using reset_texel[OF grey_valid, of "(0, 0)"] grey_pixel
  by (simp add: reset_eq[OF grey_valid] in_grid_def session_fields[OF page_constructible]
        mix_def v4add_def v4scale_def
        texel_of_rgba_def)

section \<open>A session without a feed mask (C3)\<close>

text \<open>
  \<^bold>\<open>C3\<close>, evaluated on the code. In the session built without \<open>feed_mask\<close> the stencil
  program is given the plain object \<^verbatim>\<open>{ min: 0, max: 0 }\<close> for its sampler \<open>feed_mask\<close>,
  not a texture of ones. The draw call is rejected: \<open>run\<close> and the whole frame end with the
  error, and the state is as before, so no cell gets a local feed rate at all, whereas the
  claim has every step behave as under a mask of \<open>1.0\<close>.
\<close>

theorem maskless_step_rejected:
  "feedMaskTexture maskless_session = None
   \<and> feed_mask (step_props ((main_params [])\<lparr>feed_mask_param := None\<rparr>) maskless_session
        (main_uniforms 0.03 0.06 0) (buffer_textures maskless_session ! 0)) = ObjectValue
   \<and> run (\<lambda>tex. karlsims_reactiondiffusion
              (step_props ((main_params [])\<lparr>feed_mask_param := None\<rparr>) maskless_session
                 (main_uniforms 0.03 0.06 0) tex)) maskless_session
       = (Some (InvalidUniform ''feed_mask''), maskless_session)
   \<and> frame ((main_params [])\<lparr>feed_mask_param := None\<rparr>) (main_uniforms 0.03 0.06) visible 0
        maskless_session
       = (Some (InvalidUniform ''feed_mask''), maskless_session)"
proof -
  let ?P = "(main_params [])\<lparr>feed_mask_param := None\<rparr>"
  have fm: "feedMaskTexture maskless_session = None"
    by (rule maskless_session_feedMaskTexture)
  have r: "run (\<lambda>tex. karlsims_reactiondiffusion
              (step_props ?P maskless_session (main_uniforms 0.03 0.06 0) tex)) maskless_session
       = (Some (InvalidUniform ''feed_mask''), maskless_session)"
    by (rule run_maskless[OF maskless_valid fm])
  have fr: "frame ?P (main_uniforms 0.03 0.06) visible 0 maskless_session
       = (Some (InvalidUniform ''feed_mask''), maskless_session)"
    by (rule frame_maskless[where n = 256, OF maskless_valid fm])
       (simp_all add: main_params_def main_uniforms_def)
  have ob: "feed_mask (step_props ?P maskless_session
        (main_uniforms 0.03 0.06 0) (buffer_textures maskless_session ! 0)) = ObjectValue"
    by (simp add: step_props_def fm)
  from fm ob r fr show ?thesis by (intro conjI)
qed

section \<open>The roles of the two buffers (C4)\<close>

text \<open>
  \<^bold>\<open>C4.\<close> In every reachable state there are exactly two buffers and \<open>currentOutputIn\<close>
  is \<open>0\<close> or \<open>1\<close>: the buffer of \<open>currentOutputIn\<close> is the read buffer and the buffer of
  \<open>1 - currentOutputIn\<close>, which is the other index, is the write buffer. Every draw call
  issued so far was given the two indices, one each. A step (\<open>run\<close>) passes the read buffer
  to the command, stores what the command drew in the write buffer and leaves the read
  buffer as it was, and then \<open>currentOutputIn\<close> is the other index: the roles have swapped.
  A step whose command fails changes nothing.
\<close>

theorem buffer_roles_consistent:
  assumes "reachable accepts params st"
  shows "(currentOutputIn st = 0 \<or> currentOutputIn st = 1)
       \<and> length (buffer_textures st) = 2
       \<and> 1 - currentOutputIn st \<noteq> currentOutputIn st
       \<and> (1 - currentOutputIn st = 0 \<or> 1 - currentOutputIn st = 1)
       \<and> list_all roles_ok (gpu_log st)
       \<and> run fn st =
           (case fn (buffer_textures st ! nat (currentOutputIn st))
                    (buffer_textures st ! nat (1 - currentOutputIn st)) of
              Inl e \<Rightarrow> (Some e, st)
            | Inr drawn \<Rightarrow>
               (None,
                st\<lparr>buffer_textures := (buffer_textures st)[nat (1 - currentOutputIn st) := drawn],
                   currentOutputIn := 1 - currentOutputIn st,
                   gpu_log := gpu_log st @ [Step (currentOutputIn st) (1 - currentOutputIn st)]\<rparr>))
       \<and> (\<forall>drawn. (buffer_textures st)[nat (1 - currentOutputIn st) := drawn] ! nat (currentOutputIn st)
                    = buffer_textures st ! nat (currentOutputIn st)
                \<and> (buffer_textures st)[nat (1 - currentOutputIn st) := drawn] ! nat (1 - currentOutputIn st)
                    = drawn)"
proof -
  from reachable_inv[OF assms] have len: "length (buffer_textures st) = 2"
    and c: "currentOutputIn st = 0 \<or> currentOutputIn st = 1"
    and lg: "list_all roles_ok (gpu_log st)"
    by (simp_all add: diagram_inv_def valid_diagram_def)
  have r: "run fn st =
           (case fn (buffer_textures st ! nat (currentOutputIn st))
                    (buffer_textures st ! nat (1 - currentOutputIn st)) of
              Inl e \<Rightarrow> (Some e, st)
            | Inr drawn \<Rightarrow>
               (None,
                st\<lparr>buffer_textures := (buffer_textures st)[nat (1 - currentOutputIn st) := drawn],
                   currentOutputIn := 1 - currentOutputIn st,
                   gpu_log := gpu_log st @ [Step (currentOutputIn st) (1 - currentOutputIn st)]\<rparr>))"
    using array_get_pair[OF len c] by (simp add: run_def Let_def)
  have d: "1 - currentOutputIn st \<noteq> currentOutputIn st" by presburger
  have u: "(buffer_textures st)[nat (1 - currentOutputIn st) := drawn] ! nat (currentOutputIn st)
                    = buffer_textures st ! nat (currentOutputIn st)
                \<and> (buffer_textures st)[nat (1 - currentOutputIn st) := drawn] ! nat (1 - currentOutputIn st)
                    = drawn" for drawn
    using len c by auto
  from c have "1 - currentOutputIn st = 0 \<or> 1 - currentOutputIn st = 1" by auto
  with len c lg r d u show ?thesis by blast
qed

theorem buffer_roles_consistent_witness:
  "reachable (\<lambda>n. True) (main_params (replicate 65536 1)) page_session
   \<and> currentOutputIn page_session = 0
   \<and> currentOutputIn (snd (run (\<lambda>src target. Inr target) page_session)) = 1"
proof -
  have re: "reachable (\<lambda>n. True) (main_params (replicate 65536 1)) page_session"
    by (rule session_reachable[OF page_constructible])
  have c0: "currentOutputIn page_session = 0"
    by (rule session_fields(1)[OF page_constructible])
  from buffer_roles_consistent[OF re, of "\<lambda>src target. Inr target"] c0
  show ?thesis using re by simp
qed

section \<open>Normalising the feed mask (C5)\<close>

text \<open>
  \<^bold>\<open>C5.\<close> For every field whose length differs from \<open>size * size\<close>, \<open>updateFeedMask\<close>
  warns on the console (with the expected and the given length), replaces the field by its
  first \<open>size * size\<close> elements followed by zeros up to that length, which is a field of
  exactly \<open>size * size\<close> elements, and does not throw; where a mask texture exists it is
  reloaded from the normalised field.
\<close>

theorem updateFeedMask_normalizes:
  assumes "int (length newFeedMask) \<noteq> size_param params * size_param params"
  shows "\<exists>fixed.
           fixed = take (nat (size_param params * size_param params)) newFeedMask
                     @ replicate (nat (size_param params * size_param params) - length newFeedMask) 0
         \<and> int (length fixed) = size_param params * size_param params
         \<and> updateFeedMask_fixed (size_param params * size_param params) newFeedMask =
             ([Warn (size_param params * size_param params) (length newFeedMask)], Inr fixed)
         \<and> updateFeedMask params newFeedMask st =
             (None, [Warn (size_param params * size_param params) (length newFeedMask)],
              (case feedMaskTexture st of
                 Some t \<Rightarrow> st\<lparr>feedMaskTexture := Some (mask_texture (size_param params) fixed)\<rparr>
               | None \<Rightarrow> st))"
proof (intro exI conjI)
  show "updateFeedMask params newFeedMask st =
             (None, [Warn (size_param params * size_param params) (length newFeedMask)],
              (case feedMaskTexture st of
                 Some t \<Rightarrow> st\<lparr>feedMaskTexture := Some (mask_texture (size_param params)
                   (take (nat (size_param params * size_param params)) newFeedMask
                     @ replicate (nat (size_param params * size_param params) - length newFeedMask) 0))\<rparr>
               | None \<Rightarrow> st))"
    using assms by (simp add: updateFeedMask_def updateFeedMask_fixed_mismatch Let_def)
qed (rule refl int_length_padded updateFeedMask_fixed_mismatch[OF assms])+

theorem updateFeedMask_normalizes_witness:
  "int (length [1, 2, 3 :: real]) \<noteq> size_param (main_params (replicate 65536 1)) * size_param (main_params (replicate 65536 1))
   \<and> updateFeedMask_fixed 65536 [1, 2, 3] =
        ([Warn 65536 (length [1, 2, 3 :: real])], Inr ([1, 2, 3] @ replicate 65533 0))
   \<and> fst (updateFeedMask (main_params (replicate 65536 1)) [1, 2, 3] page_session) = None
   \<and> feedMaskTexture (snd (snd (updateFeedMask (main_params (replicate 65536 1)) [1, 2, 3] page_session)))
        = Some (mask_texture 256 ([1, 2, 3] @ replicate 65533 0))"
proof -
  have ne: "int (length [1, 2, 3 :: real]) \<noteq>
      size_param (main_params (replicate 65536 1)) * size_param (main_params (replicate 65536 1))"
    by (simp add: main_params_def SIMULATION_SIZE_def)
  show ?thesis
    using ne updateFeedMask_normalizes [OF ne, of page_session] page_session_feedMaskTexture
    by (simp add: main_params_def SIMULATION_SIZE_def)
qed

section \<open>Replacing the mask leaves the buffers alone (C6)\<close>

text \<open>
  \<^bold>\<open>C6.\<close> For every field, state and configuration, \<open>updateFeedMask\<close> leaves both
  simulation buffers, \<open>currentOutputIn\<close>, the source canvas and the list of draw calls
  exactly as they were.
\<close>

theorem updateFeedMask_keeps_buffers:
  "buffer_textures (snd (snd (updateFeedMask params newFeedMask st))) = buffer_textures st
   \<and> currentOutputIn (snd (snd (updateFeedMask params newFeedMask st))) = currentOutputIn st
   \<and> source_bitmap (snd (snd (updateFeedMask params newFeedMask st))) = source_bitmap st
   \<and> gpu_log (snd (snd (updateFeedMask params newFeedMask st))) = gpu_log st"
  by (simp add: updateFeedMask_def Let_def split: prod.splits sum.splits option.splits)

section \<open>A hidden surface (C7)\<close>

text \<open>
  \<^bold>\<open>C7.\<close> When the canvas is marked hidden (\<open>dataset.visible\<close>) or the document is
  hidden (\<open>visibilityState\<close>), the frame callback returns at once: the whole state, with
  both buffers, \<open>currentOutputIn\<close> and the list of draw calls, is unchanged, so no stencil
  step ran and nothing was drawn.
\<close>

theorem frame_hidden:
  assumes "dataset_visible ev = Some ''hidden'' \<or> visibilityState ev = ''hidden''"
  shows "frame params uniforms ev tick st = (None, st)"
  using assms by (simp add: frame_def)

theorem frame_hidden_witness:
  "frame (main_params (replicate 65536 1)) (main_uniforms 0.03 0.06)
     \<lparr>dataset_visible = Some ''hidden'', visibilityState = ''visible''\<rparr> 7 page_session
   = (None, page_session)"
  using frame_hidden [of "\<lparr>dataset_visible = Some ''hidden'', visibilityState = ''visible''\<rparr>"]
  by simp

section \<open>Wrap-around at the edge (C8)\<close>

text \<open>
  \<^bold>\<open>C8\<close>, as the code has it. Sampling wraps around the edge: for every grid of at least
  \<open>2 \<times> 2\<close> cells and every row \<open>y\<close>, with \<open>diffusion_step = 1\<close> and \<open>diffusion_rate \<noteq> 0\<close>,
  two valid states that differ in channel \<open>A\<close> of the read buffer at the edge cell \<open>(0, y)\<close>
  and agree on every other cell of it give, after one stencil step, different values of
  channel \<open>A\<close> at the cell \<open>(size - 1, y)\<close>.
\<close>

theorem wraparound_influence:
  assumes v: "valid_diagram (size_param params) st"
    and v2: "valid_diagram (size_param params) st2"
    and fm: "feedMaskTexture st = Some m"
    and fm2: "feedMaskTexture st2 = Some m"
    and cur: "currentOutputIn st2 = currentOutputIn st"
    and n2: "2 \<le> size_param params"
    and y: "0 \<le> y" "y < size_param params"
    and agree: "\<forall>q. in_grid (size_param params) q \<and> q \<noteq> (0, y) \<longrightarrow>
                  texels (buffer_textures st2 ! nat (currentOutputIn st)) q =
                  texels (buffer_textures st ! nat (currentOutputIn st)) q"
    and differ: "vx (texels (buffer_textures st2 ! nat (currentOutputIn st)) (0, y)) \<noteq>
                 vx (texels (buffer_textures st ! nat (currentOutputIn st)) (0, y))"
    and u: "diffusion_step u = 1" "diffusion_rate u \<noteq> 0"
  shows "vx (texels (buffer_textures
               (snd (run (\<lambda>tex. karlsims_reactiondiffusion (step_props params st2 u tex)) st2))
               ! nat (1 - currentOutputIn st)) (size_param params - 1, y)) \<noteq>
         vx (texels (buffer_textures
               (snd (run (\<lambda>tex. karlsims_reactiondiffusion (step_props params st u tex)) st))
               ! nat (1 - currentOutputIn st)) (size_param params - 1, y))"
proof -
  let ?n = "size_param params"
  let ?rd = "buffer_textures st ! nat (currentOutputIn st)"
  let ?rd2 = "buffer_textures st2 ! nat (currentOutputIn st)"
  let ?p = "(?n - 1, y)"
  note b = valid_diagram_buffers[OF v]
  note b2 = valid_diagram_buffers[OF v2, unfolded cur]
  from v fm have mk: "radius m = ?n" "min_mag m = Nearest" "wrap m = Clamp"
    by (simp_all add: valid_diagram_def)
  have p: "in_grid ?n ?p" using n2 y by (simp add: in_grid_def)
  define ym where "ym = (y - 1) mod ?n"
  define yp where "yp = (y + 1) mod ?n"
  have ym: "0 \<le> ym" "ym < ?n" "ym \<noteq> y"
    using n2 y pred_mod_neq[of ?n y] by (simp_all add: ym_def)
  have yp: "0 \<le> yp" "yp < ?n" "yp \<noteq> y"
    using n2 y succ_mod_neq[of ?n y] by (simp_all add: yp_def)
  have "(?n - 2) mod ?n = ?n - 2" "(?n - 1) mod ?n = ?n - 1"
    using n2 by (simp_all only: mod_pos_pos_trivial)
  then have idx: "- 2 mod ?n = ?n - 2" "- 1 mod ?n = ?n - 1" "y mod ?n = y"
    using y by (simp_all add: mod_pos_pos_trivial)
  have same: "texels ?rd2 (a, c) = texels ?rd (a, c)"
    if "0 \<le> a" "a < ?n" "0 \<le> c" "c < ?n" "a \<noteq> 0 \<or> c \<noteq> y" for a c
    using agree that by (auto simp: in_grid_def)
  have out: "vx (texels (buffer_textures
               (snd (run (\<lambda>tex. karlsims_reactiondiffusion (step_props params st u tex)) st))
               ! nat (1 - currentOutputIn st)) ?p) =
        vx (karlsims_main (step_props params st u ?rd) m (fragment_uv ?n ?p))"
    by (simp add: run_karlsims_texel[OF v fm p])
  have out2: "vx (texels (buffer_textures
               (snd (run (\<lambda>tex. karlsims_reactiondiffusion (step_props params st2 u tex)) st2))
               ! nat (1 - currentOutputIn st)) ?p) =
        vx (karlsims_main (step_props params st2 u ?rd2) m (fragment_uv ?n ?p))"
    using run_karlsims_texel[OF v2 fm2 p, of params u] by (simp add: cur)
  have f: "vx (karlsims_main (step_props params st u ?rd) m (fragment_uv ?n ?p)) =
     vx (texels ?rd ?p)
     + (diffusion_rate u *
          (0.2 * (vx (texels ?rd (?n - 2, y)) + vx (texels ?rd (0, y))
                  + vx (texels ?rd (?n - 1, ym)) + vx (texels ?rd (?n - 1, yp)))
           + 0.05 * (vx (texels ?rd (?n - 2, ym)) + vx (texels ?rd (0, ym))
                     + vx (texels ?rd (?n - 2, yp)) + vx (texels ?rd (0, yp)))
           - vx (texels ?rd ?p))
        - vx (texels ?rd ?p) * vy (texels ?rd ?p) * vy (texels ?rd ?p)
        + feed u * vx (texels m ?p) * (1 - vx (texels ?rd ?p)))"
    using karlsims_main_vx_unit_step[OF b(3,4,5) mk p, of "step_props params st u ?rd"] u(1)
    by (simp add: step_props_def idx ym_def yp_def)
  have f2: "vx (karlsims_main (step_props params st2 u ?rd2) m (fragment_uv ?n ?p)) =
     vx (texels ?rd2 ?p)
     + (diffusion_rate u *
          (0.2 * (vx (texels ?rd2 (?n - 2, y)) + vx (texels ?rd2 (0, y))
                  + vx (texels ?rd2 (?n - 1, ym)) + vx (texels ?rd2 (?n - 1, yp)))
           + 0.05 * (vx (texels ?rd2 (?n - 2, ym)) + vx (texels ?rd2 (0, ym))
                     + vx (texels ?rd2 (?n - 2, yp)) + vx (texels ?rd2 (0, yp)))
           - vx (texels ?rd2 ?p))
        - vx (texels ?rd2 ?p) * vy (texels ?rd2 ?p) * vy (texels ?rd2 ?p)
        + feed u * vx (texels m ?p) * (1 - vx (texels ?rd2 ?p)))"
    using karlsims_main_vx_unit_step[OF b2(3,4,5) mk p, of "step_props params st2 u ?rd2"] u(1)
    by (simp add: step_props_def idx ym_def yp_def)
  have eqs: "texels ?rd2 ?p = texels ?rd ?p"
    "texels ?rd2 (?n - 1, ym) = texels ?rd (?n - 1, ym)"
    "texels ?rd2 (?n - 1, yp) = texels ?rd (?n - 1, yp)"
    "texels ?rd2 (?n - 2, ym) = texels ?rd (?n - 2, ym)"
    "texels ?rd2 (?n - 2, yp) = texels ?rd (?n - 2, yp)"
    "texels ?rd2 (0, ym) = texels ?rd (0, ym)"
    "texels ?rd2 (0, yp) = texels ?rd (0, yp)"
    using n2 y ym yp by (auto intro!: same)
  define d where "d = vx (texels ?rd2 (0, y)) - vx (texels ?rd (0, y))"
  have d: "d \<noteq> 0" using differ by (simp add: d_def)
  have diff: "vx (karlsims_main (step_props params st2 u ?rd2) m (fragment_uv ?n ?p))
        - vx (karlsims_main (step_props params st u ?rd) m (fragment_uv ?n ?p))
        = diffusion_rate u * 0.2 * (if ?n = 2 then 2 else 1) * d"
  proof (cases "?n = 2")
    case True
    then have "(?n - 2, y) = (0, y)" by simp
    then show ?thesis
      unfolding f f2 eqs d_def using True by (simp add: algebra_simps)
  next
    case False
    with n2 have "texels ?rd2 (?n - 2, y) = texels ?rd (?n - 2, y)"
      using y by (auto intro!: same)
    then show ?thesis
      unfolding f f2 eqs d_def using False by (simp add: algebra_simps)
  qed
  have k: "diffusion_rate u * 0.2 * (if ?n = 2 then 2 else 1) * d \<noteq> 0"
    using d u(2) by simp
  have "vx (karlsims_main (step_props params st2 u ?rd2) m (fragment_uv ?n ?p)) \<noteq>
        vx (karlsims_main (step_props params st u ?rd) m (fragment_uv ?n ?p))"
  proof
    assume "vx (karlsims_main (step_props params st2 u ?rd2) m (fragment_uv ?n ?p)) =
        vx (karlsims_main (step_props params st u ?rd) m (fragment_uv ?n ?p))"
    then have "vx (karlsims_main (step_props params st2 u ?rd2) m (fragment_uv ?n ?p))
        - vx (karlsims_main (step_props params st u ?rd) m (fragment_uv ?n ?p)) = 0"
      by (simp only: diff_self)
    with diff k show False by (simp only:)
  qed
  then show ?thesis unfolding out out2 by simp
qed

theorem wraparound_influence_witness:
  "valid_diagram (size_param dot_params) blank_session
   \<and> valid_diagram (size_param dot_params) dot_session
   \<and> vx (texels (buffer_textures dot_session ! 0) (0, 1)) = 1
   \<and> vx (texels (buffer_textures blank_session ! 0) (0, 1)) = 0
   \<and> diffusion_step (scenario_uniforms 1) = 1
   \<and> texels (buffer_textures
          (snd (run (\<lambda>tex. karlsims_reactiondiffusion
                       (step_props dot_params dot_session (scenario_uniforms 1) tex)) dot_session)) ! 1)
          (3, 1) = Vec4 (17/100) 0 0 0
   \<and> texels (buffer_textures
          (snd (run (\<lambda>tex. karlsims_reactiondiffusion
                       (step_props dot_params blank_session (scenario_uniforms 1) tex)) blank_session)) ! 1)
          (3, 1) = Vec4 (3/100) 0 0 0
   \<and> vx (texels (buffer_textures
          (snd (run (\<lambda>tex. karlsims_reactiondiffusion
                       (step_props dot_params dot_session (scenario_uniforms 1) tex)) dot_session)) ! 1)
          (4 - 1, 1)) \<noteq>
       vx (texels (buffer_textures
          (snd (run (\<lambda>tex. karlsims_reactiondiffusion
                       (step_props dot_params blank_session (scenario_uniforms 1) tex)) blank_session)) ! 1)
          (4 - 1, 1))"
proof -
  have v: "valid_diagram (size_param dot_params) blank_session"
    using session_valid[OF blank_constructible, of "()"] by simp
  have v2: "valid_diagram (size_param dot_params) dot_session"
    using session_valid[OF dot_constructible, of "()"] by simp
  have fm: "feedMaskTexture blank_session = Some (mask_texture 4 (replicate 16 1))"
    "feedMaskTexture dot_session = Some (mask_texture 4 (replicate 16 1))"
    by (simp_all add: session_fields sessions_constructible)
  have cur: "currentOutputIn dot_session = currentOutputIn blank_session"
    by (simp add: session_fields sessions_constructible)
  have agree: "\<forall>q. in_grid (size_param dot_params) q \<and> q \<noteq> (0, 1) \<longrightarrow>
      texels (buffer_textures dot_session ! nat (currentOutputIn blank_session)) q =
      texels (buffer_textures blank_session ! nat (currentOutputIn blank_session)) q"
    by (simp add: session_fields sessions_constructible dot_buffer blank_buffer)
  have differ: "vx (texels (buffer_textures dot_session ! nat (currentOutputIn blank_session)) (0, 1)) \<noteq>
      vx (texels (buffer_textures blank_session ! nat (currentOutputIn blank_session)) (0, 1))"
    by (simp add: session_fields sessions_constructible dot_buffer blank_buffer in_grid_def)
  from wraparound_influence[OF v v2 fm cur _ _ _ agree differ, of "scenario_uniforms 1"]
  show ?thesis
    using v v2 dot_near_step blank_near_step
    by (simp add: session_fields sessions_constructible dot_buffer blank_buffer in_grid_def)
qed

text \<open>
  Without the condition on the parameters the claim fails. On the \<open>4 \<times> 4\<close> grid with
  \<open>diffusion_step = 2\<close> the neighbours of the cell \<open>(3, 1)\<close> lie two cells away, in columns
  \<open>1\<close> and \<open>3\<close>: the seed with the value \<open>1\<close> at the edge cell \<open>(0, 1)\<close> and the seed with \<open>0\<close>
  there give the same texel at \<open>(3, 1)\<close> after one step.
\<close>

theorem far_neighbours_counterexample:
  "texels (buffer_textures dot_session ! 0) (0, 1) = Vec4 1 0 0 1
   \<and> texels (buffer_textures blank_session ! 0) (0, 1) = Vec4 0 0 0 1
   \<and> texels (buffer_textures
        (snd (run (\<lambda>tex. karlsims_reactiondiffusion
                     (step_props dot_params dot_session (scenario_uniforms 2) tex)) dot_session)) ! 1)
        (4 - 1, 1) = Vec4 (3/100) 0 0 0
   \<and> texels (buffer_textures
        (snd (run (\<lambda>tex. karlsims_reactiondiffusion
                     (step_props blank_params blank_session (scenario_uniforms 2) tex)) blank_session)) ! 1)
        (4 - 1, 1) = Vec4 (3/100) 0 0 0"
  using dot_far_step blank_far_step by (simp add: dot_buffer blank_buffer in_grid_def)

section \<open>Construction and the size (C9)\<close>

text \<open>
  \<^bold>\<open>C9.\<close> Constructing a session with a size that is not positive fails at
  construction: on every device and for every configuration and host data,
  \<open>makeReactionDiffusionDiagram\<close> returns the error of the first texture it asks regl for
  (an invalid texture shape) instead of a session, so the error is the outcome of the call
  itself, and no state of such a configuration is reachable.
\<close>

theorem nonpositive_size_aborts:
  assumes "size_param params \<le> 0"
  shows "makeReactionDiffusionDiagram accepts params host =
           Inl (InvalidTextureShape (size_param params))
       \<and> (\<forall>st. \<not> reachable accepts params st)"
proof -
  have mk: "makeReactionDiffusionDiagram accepts params h =
           Inl (InvalidTextureShape (size_param params))" for h
    using assms
    by (simp add: makeReactionDiffusionDiagram_def regl_texture_check_def mask_texture_def
          buffer_texture_def Let_def split: option.splits)
  have "\<not> reachable accepts params st" for st
  proof
    assume "reachable accepts params st"
    then show False
      by (induction rule: reachable.induct) (simp_all add: mk)
  qed
  with mk show ?thesis by blast
qed

theorem nonpositive_size_aborts_witness:
  "size_param ((main_params (replicate 65536 1))\<lparr>size_param := 0\<rparr>) \<le> 0
   \<and> makeReactionDiffusionDiagram (\<lambda>n. True)
         ((main_params (replicate 65536 1))\<lparr>size_param := 0\<rparr>) (replicate 65536 1)
       = Inl (InvalidTextureShape 0)
   \<and> makeReactionDiffusionDiagram (\<lambda>n. True)
         ((main_params (replicate 65536 1))\<lparr>size_param := - 1\<rparr>) (replicate 65536 1)
       = Inl (InvalidTextureShape (- 1))
   \<and> makeReactionDiffusionDiagram (\<lambda>n. True)
         ((main_params [])\<lparr>size_param := - 1, feed_mask_param := None\<rparr>) []
       = Inl (InvalidTextureShape (- 1))"
  using nonpositive_size_aborts
          [of "(main_params (replicate 65536 1))\<lparr>size_param := 0\<rparr>" "\<lambda>n. True" "replicate 65536 1"]
        nonpositive_size_aborts
          [of "(main_params (replicate 65536 1))\<lparr>size_param := - 1\<rparr>" "\<lambda>n. True" "replicate 65536 1"]
        nonpositive_size_aborts
          [of "(main_params [])\<lparr>size_param := - 1, feed_mask_param := None\<rparr>" "\<lambda>n. True" "[]"]
  by simp

section \<open>Updating the mask of a session that has none (C10)\<close>

text \<open>
  \<^bold>\<open>C10\<close>, as the code has it. In a state without a mask texture, \<open>updateFeedMask\<close>
  changes nothing, for every field: it does not throw, its only output is the console
  warning of the normalisation, the normalised mask is not installed and no mask texture
  is created (the state it returns is the state it was given), and every later frame does
  exactly what it would have done without the call.
\<close>

theorem updateFeedMask_without_texture:
  assumes "feedMaskTexture st = None"
  shows "updateFeedMask params newFeedMask st =
           (None, fst (updateFeedMask_fixed (size_param params * size_param params) newFeedMask), st)
         \<and> feedMaskTexture (snd (snd (updateFeedMask params newFeedMask st))) = None
         \<and> frame params uniforms ev tick (snd (snd (updateFeedMask params newFeedMask st)))
             = frame params uniforms ev tick st"
  using updateFeedMask_maskless[OF assms, of params newFeedMask] assms by simp

theorem updateFeedMask_without_texture_witness:
  "feedMaskTexture maskless_session = None
   \<and> updateFeedMask ((main_params [])\<lparr>feed_mask_param := None\<rparr>) [1, 2, 3] maskless_session
       = (None, [Warn 65536 (length [1, 2, 3 :: real])], maskless_session)"
  using updateFeedMask_without_texture [OF maskless_session_feedMaskTexture,
          of "(main_params [])\<lparr>feed_mask_param := None\<rparr>" "[1, 2, 3]"]
        maskless_session_feedMaskTexture
  by (simp add: updateFeedMask_fixed_def main_params_def SIMULATION_SIZE_def)

text \<open>
  The claim adds that the steps after the call still run, with no mask. They do not: in
  the session built without \<open>feed_mask\<close>, the visible frame after \<open>updateFeedMask\<close> ends
  with the rejected sampler uniform, and the state it leaves is the state before it, with
  the same buffers, the same \<open>currentOutputIn\<close> and no draw call added. No stencil step
  ran.
\<close>

theorem maskless_frame_after_update_counterexample:
  "updateFeedMask ((main_params [])\<lparr>feed_mask_param := None\<rparr>) [1, 2, 3] maskless_session
     = (None, [Warn 65536 (length [1, 2, 3 :: real])], maskless_session)
   \<and> frame ((main_params [])\<lparr>feed_mask_param := None\<rparr>) (main_uniforms 0.03 0.06) visible 0
        (snd (snd (updateFeedMask ((main_params [])\<lparr>feed_mask_param := None\<rparr>) [1, 2, 3]
                     maskless_session)))
     = (Some (InvalidUniform ''feed_mask''), maskless_session)
   \<and> gpu_log (snd (frame ((main_params [])\<lparr>feed_mask_param := None\<rparr>)
                     (main_uniforms 0.03 0.06) visible 0
                     (snd (snd (updateFeedMask ((main_params [])\<lparr>feed_mask_param := None\<rparr>)
                                  [1, 2, 3] maskless_session)))))
     = gpu_log maskless_session"
proof -
  let ?P = "(main_params [])\<lparr>feed_mask_param := None\<rparr>"
  have up: "updateFeedMask ?P [1, 2, 3] maskless_session
     = (None, [Warn 65536 (length [1, 2, 3 :: real])], maskless_session)"
    using updateFeedMask_maskless[OF maskless_session_feedMaskTexture, of ?P "[1, 2, 3]"]
    by (simp add: updateFeedMask_fixed_def main_params_def SIMULATION_SIZE_def)
  have fr: "frame ?P (main_uniforms 0.03 0.06) visible 0 maskless_session
       = (Some (InvalidUniform ''feed_mask''), maskless_session)"
    by (rule frame_maskless[where n = 256, OF maskless_valid maskless_session_feedMaskTexture])
       (simp_all add: main_params_def main_uniforms_def)
  show ?thesis unfolding up snd_conv fr by simp
qed

end
